theory Spec2Isabelle
  imports Complex_Main "HOL-Library.Multiset"
begin

section \<open>Python strings\<close>

text \<open>
  A Python \<open>str\<close> is a sequence of Unicode code points; \<open>len\<close>, slicing and
  \<open>strip\<close> count code points. A string is therefore a list of code points
  (natural numbers); \<open>lit\<close> turns an ASCII literal into such a list.
\<close>

type_synonym pystr = "nat list"

definition lit :: "string \<Rightarrow> pystr" where
  "lit s = map of_char s"

text \<open>
  \<open>str.isspace\<close> for one character, the table of CPython's
  \<open>_PyUnicode_IsWhitespace\<close>; \<open>str.strip()\<close> without argument removes these
  characters at both ends.
\<close>

definition py_isspace :: "nat \<Rightarrow> bool" where
  "py_isspace c \<longleftrightarrow>
     (9 \<le> c \<and> c \<le> 13) \<or> (28 \<le> c \<and> c \<le> 32) \<or> c = 133 \<or> c = 160 \<or> c = 5760 \<or>
     (8192 \<le> c \<and> c \<le> 8202) \<or> c = 8232 \<or> c = 8233 \<or> c = 8239 \<or> c = 8287 \<or>
     c = 12288"

definition py_strip :: "pystr \<Rightarrow> pystr" where
  "py_strip s = rev (dropWhile py_isspace (rev (dropWhile py_isspace s)))"

text \<open>\<open>s.startswith(p)\<close>.\<close>

definition startswith :: "'a list \<Rightarrow> 'a list \<Rightarrow> bool" where
  "startswith s p \<longleftrightarrow> take (length p) s = p"

text \<open>
  \<open>s.split(sep)\<close>: the pieces between the non-overlapping occurrences of \<open>sep\<close>,
  found from the left. Python raises ValueError for an empty separator; the only
  separator of this program is the three-backtick fence, and an empty separator
  is modelled as one that never matches.
\<close>

function py_split :: "'a list \<Rightarrow> 'a list \<Rightarrow> 'a list list" where
  "py_split sep s =
     (if s = [] then [[]]
      else if sep \<noteq> [] \<and> startswith s sep then [] # py_split sep (drop (length sep) s)
      else (case py_split sep (tl s) of
              [] \<Rightarrow> [[hd s]]
            | p # ps \<Rightarrow> (hd s # p) # ps))"
  by pat_completeness auto
termination
  by (relation "measure (\<lambda>(sep, s). length s)") auto

declare py_split.simps [simp del]

section \<open>Exceptions\<close>

text \<open>
  Every exception the program can see carries the text that \<open>str(e)\<close> gives.
  \<open>ExternalError\<close> stands for whatever a provider, the PDF library or a
  progress callback raises.
\<close>

datatype exn =
    ValueError pystr
  | TypeError pystr
  | IndexError pystr
  | AttributeError pystr
  | JSONDecodeError pystr
  | ExternalError pystr

fun exn_str :: "exn \<Rightarrow> pystr" where
  "exn_str (ValueError m) = m"
| "exn_str (TypeError m) = m"
| "exn_str (IndexError m) = m"
| "exn_str (AttributeError m) = m"
| "exn_str (JSONDecodeError m) = m"
| "exn_str (ExternalError m) = m"

section \<open>Cleaning a model response\<close>

text \<open>
  Both \<open>extract_claims\<close> (claim_extractor.py) and \<open>verify_claim\<close>
  (fact_verifier.py) clean the completion text with the same statements before
  handing it to \<open>json.loads\<close>:
  \<^verbatim>\<open>
  content = response.choices[0].message.content.strip()
  if content.startswith("```"):
      content = content.split("```")[1]
      if content.startswith("json"):
          content = content[4:]
  content = content.strip()
  \<close>
  \<open>clean_response\<close> is that block, from the raw completion text to the text
  that is parsed. The index \<open>[1]\<close> raises IndexError when there is no second
  piece.
\<close>

definition fence :: pystr where
  "fence = lit ''```''"

definition clean_response :: "pystr \<Rightarrow> exn + pystr" where
  "clean_response raw =
     (let content = py_strip raw in
      if startswith content fence then
        (case py_split fence content of
           _ # piece # _ \<Rightarrow>
             Inr (py_strip (if startswith piece (lit ''json'') then drop 4 piece else piece))
         | _ \<Rightarrow> Inl (IndexError (lit ''list index out of range'')))
      else Inr (py_strip content))"

text \<open>
  A payload in which no triple backtick starts, once the closing fence follows it: it
  holds no triple backtick and does not end in a backtick. For such a payload the
  first fence after the opening one is the closing fence.
\<close>

fun fence_free :: "pystr \<Rightarrow> bool" where
  "fence_free [] = True"
| "fence_free (c # cs) = (\<not> startswith (c # cs @ fence) fence \<and> fence_free cs)"

section \<open>Python values\<close>

text \<open>
  The values that \<open>json.loads\<close> produces and that the dictionaries of the program
  hold. A \<open>dict\<close> with string keys is an association list in insertion order, as
  Python keeps it. A \<open>float\<close> is the real number it denotes.
\<close>

datatype pyval =
    PyNone
  | PyBool bool
  | PyInt int
  | PyFloat real
  | PyStr pystr
  | PyList "pyval list"
  | PyDict "(pystr \<times> pyval) list"

type_synonym pydict = "(pystr \<times> pyval) list"

text \<open>\<open>d.get(k, default)\<close> and \<open>d[k] = v\<close> (an existing key keeps its place).\<close>

definition dict_get :: "pydict \<Rightarrow> pystr \<Rightarrow> pyval \<Rightarrow> pyval" where
  "dict_get d k dflt = (case map_of d k of Some v \<Rightarrow> v | None \<Rightarrow> dflt)"

fun dict_set :: "pydict \<Rightarrow> pystr \<Rightarrow> pyval \<Rightarrow> pydict" where
  "dict_set [] k v = [(k, v)]"
| "dict_set ((k', v') # d) k v =
     (if k' = k then (k, v) # d else (k', v') # dict_set d k v)"

text \<open>\<open>type(v).__name__\<close>, as it appears in the messages of TypeError and AttributeError.\<close>

fun py_type_name :: "pyval \<Rightarrow> pystr" where
  "py_type_name PyNone = lit ''NoneType''"
| "py_type_name (PyBool _) = lit ''bool''"
| "py_type_name (PyInt _) = lit ''int''"
| "py_type_name (PyFloat _) = lit ''float''"
| "py_type_name (PyStr _) = lit ''str''"
| "py_type_name (PyList _) = lit ''list''"
| "py_type_name (PyDict _) = lit ''dict''"

text \<open>\<open>sep.join(xs)\<close>.\<close>

fun py_join :: "pystr \<Rightarrow> pystr list \<Rightarrow> pystr" where
  "py_join sep [] = []"
| "py_join sep [x] = x"
| "py_join sep (x # y # ys) = x @ sep @ py_join sep (y # ys)"

subsection \<open>\<open>str\<close> and \<open>repr\<close>\<close>

text \<open>Decimal digits of a natural number and of an integer, as \<open>str(n)\<close> prints them.\<close>

fun dec_nat :: "nat \<Rightarrow> pystr" where
  "dec_nat n = (if n < 10 then [48 + n] else dec_nat (n div 10) @ [48 + n mod 10])"

declare dec_nat.simps [simp del]

definition dec_int :: "int \<Rightarrow> pystr" where
  "dec_int i = (if i < 0 then 45 # dec_nat (nat (- i)) else dec_nat (nat i))"

text \<open>Lower-case hexadecimal with a fixed number of digits, for the escapes of \<open>repr\<close>.\<close>

definition hex_digit :: "nat \<Rightarrow> nat" where
  "hex_digit d = (if d < 10 then 48 + d else 87 + d)"

fun hex_fixed :: "nat \<Rightarrow> nat \<Rightarrow> pystr" where
  "hex_fixed 0 n = []"
| "hex_fixed (Suc w) n = hex_fixed w (n div 16) @ [hex_digit (n mod 16)]"

text \<open>
  Two facts of the Python runtime are parameters: which code points above ASCII the
  Unicode database calls printable, and the shortest-round-trip text of a float.
\<close>

record builtins =
  isprintable :: "nat \<Rightarrow> bool"
  float_repr :: "real \<Rightarrow> pystr"

text \<open>
  \<open>repr\<close> of a string (CPython's \<open>unicode_repr\<close>): single quotes unless the string
  has a single quote and no double quote; the quote and the backslash are escaped,
  tab, newline and carriage return are written \<open>\t\<close>, \<open>\n\<close>, \<open>\r\<close>, other
  non-printable characters in hexadecimal.
\<close>

definition repr_char :: "builtins \<Rightarrow> nat \<Rightarrow> nat \<Rightarrow> pystr" where
  "repr_char b quote ch =
     (if ch = quote \<or> ch = 92 then [92, ch]
      else if ch = 9 then [92, 116]
      else if ch = 10 then [92, 110]
      else if ch = 13 then [92, 114]
      else if ch < 32 \<or> ch = 127 then [92, 120] @ hex_fixed 2 ch
      else if ch < 127 then [ch]
      else if \<not> isprintable b ch then
        (if ch \<le> 255 then [92, 120] @ hex_fixed 2 ch
         else if ch \<le> 65535 then [92, 117] @ hex_fixed 4 ch
         else [92, 85] @ hex_fixed 8 ch)
      else [ch])"

definition repr_str :: "builtins \<Rightarrow> pystr \<Rightarrow> pystr" where
  "repr_str b s =
     (let quote = (if 39 \<in> set s \<and> 34 \<notin> set s then 34 else 39)
      in [quote] @ concat (map (repr_char b quote) s) @ [quote])"

fun py_repr :: "builtins \<Rightarrow> pyval \<Rightarrow> pystr" where
  "py_repr b PyNone = lit ''None''"
| "py_repr b (PyBool t) = (if t then lit ''True'' else lit ''False'')"
| "py_repr b (PyInt i) = dec_int i"
| "py_repr b (PyFloat x) = float_repr b x"
| "py_repr b (PyStr s) = repr_str b s"
| "py_repr b (PyList vs) = lit ''['' @ py_join (lit '', '') (map (py_repr b) vs) @ lit '']''"
| "py_repr b (PyDict kvs) =
     lit ''{'' @ py_join (lit '', '')
        (map (\<lambda>kv. repr_str b (fst kv) @ lit '': '' @ py_repr b (snd kv)) kvs) @ lit ''}''"

text \<open>\<open>str(v)\<close>, which f-strings and \<open>str.format\<close> apply to a value without format spec.\<close>

definition py_str :: "builtins \<Rightarrow> pyval \<Rightarrow> pystr" where
  "py_str b v = (case v of PyStr s \<Rightarrow> s | _ \<Rightarrow> py_repr b v)"

text \<open>The truth value of a value, as \<open>if v:\<close> tests it.\<close>

fun py_truthy :: "pyval \<Rightarrow> bool" where
  "py_truthy PyNone = False"
| "py_truthy (PyBool t) = t"
| "py_truthy (PyInt i) = (i \<noteq> 0)"
| "py_truthy (PyFloat x) = (x \<noteq> 0)"
| "py_truthy (PyStr s) = (s \<noteq> [])"
| "py_truthy (PyList vs) = (vs \<noteq> [])"
| "py_truthy (PyDict kvs) = (kvs \<noteq> [])"

text \<open>
  The exceptions of an operation on a value of the wrong type: \<open>v.get\<close> on a value
  that is not a dictionary, and a slice \<open>v[:n]\<close> of a value that cannot be sliced
  (for a dictionary the slice is looked up as a key and cannot be hashed; this is
  Python 3.11, later versions raise KeyError).
\<close>

definition no_get_error :: "pyval \<Rightarrow> exn" where
  "no_get_error v =
     AttributeError ([39] @ py_type_name v @ [39] @ lit '' object has no attribute '' @
                     [39] @ lit ''get'' @ [39])"

definition no_slice_error :: "pyval \<Rightarrow> exn" where
  "no_slice_error v =
     (case v of
        PyDict _ \<Rightarrow> TypeError (lit ''unhashable type: '' @ [39] @ lit ''slice'' @ [39])
      | _ \<Rightarrow> TypeError ([39] @ py_type_name v @ [39] @ lit '' object is not subscriptable''))"

section \<open>Configuration and the external services\<close>

text \<open>
  The search provider answers with a Python value, which the program takes for a
  dictionary with an optional \<open>answer\<close> and a list \<open>results\<close> of dictionaries but
  does not check. A completion is the list of its choices, each the message content
  or \<open>None\<close>.
\<close>

type_synonym chat_response = "pystr option list"

text \<open>
  Every call that leaves the process is written to a log, in the order made:
  \<^item> \<open>SearchCall key query max_results\<close> is \<open>TavilyClient(api_key=key).search(query=query,
    search_depth="advanced", max_results=max_results, include_answer=True)\<close>;
  \<^item> \<open>ChatCall key model prompt max_tokens\<close> is \<open>chat.completions.create\<close> on the
    client for \<open>https://openrouter.ai/api/v1\<close> with that key, one user message
    holding the prompt, and temperature 0.1;
  \<^item> \<open>ProgressCall i total preview\<close> is an invocation of the progress callback.
\<close>

datatype call =
    SearchCall pystr pyval nat
  | ChatCall pystr pystr pystr nat
  | ProgressCall nat nat pystr

text \<open>
  The world outside the program. \<open>secrets\<close> is \<open>st.secrets\<close>, \<open>None\<close> when
  reading it raises; the values of the secrets are strings. A provider's answer may depend on everything that was called
  before, so each provider takes the log so far. \<open>json_loads\<close> is the library's
  \<open>json.loads\<close>.
\<close>

record env =
  secrets :: "(pystr \<times> pystr) list option"
  tavily_search :: "call list \<Rightarrow> pystr \<Rightarrow> pyval \<Rightarrow> nat \<Rightarrow> exn + pyval"
  chat_create :: "call list \<Rightarrow> pystr \<Rightarrow> pystr \<Rightarrow> pystr \<Rightarrow> nat \<Rightarrow> exn + chat_response"
  json_loads :: "pystr \<Rightarrow> exn + pyval"
  runtime :: builtins

text \<open>
  \<open>get_secret\<close> of app.py; the two modules read their keys with the same
  \<open>try: st.secrets.get(key, default) except Exception: default\<close>.
\<close>

definition get_secret :: "env \<Rightarrow> pystr \<Rightarrow> pystr \<Rightarrow> pystr" where
  "get_secret env key dflt =
     (case secrets env of
        None \<Rightarrow> dflt
      | Some s \<Rightarrow> (case map_of s key of None \<Rightarrow> dflt | Some v \<Rightarrow> v))"

text \<open>A client is represented by the API key it was built with.\<close>

definition get_tavily_client :: "env \<Rightarrow> exn + pystr" where
  "get_tavily_client env =
     (let api_key = get_secret env (lit ''TAVILY_API_KEY'') [] in
      if api_key = [] then
        Inl (ValueError (lit ''Tavily API key not found in secrets. Please configure TAVILY_API_KEY.''))
      else Inr api_key)"

definition get_openai_client :: "env \<Rightarrow> exn + pystr" where
  "get_openai_client env =
     (let api_key = get_secret env (lit ''OPENROUTER_API_KEY'') [] in
      if api_key = [] then
        Inl (ValueError (lit ''API key not found in secrets. Please configure OPENROUTER_API_KEY.''))
      else Inr api_key)"

definition get_model_name :: "env \<Rightarrow> pystr" where
  "get_model_name env = get_secret env (lit ''OpenAi_API_KEY'') (lit ''google/gemma-2-9b-it'')"

text \<open>
  A function that may raise and may call out takes the log and returns its result
  with the log extended.
\<close>

definition search_web :: "env \<Rightarrow> pyval \<Rightarrow> nat \<Rightarrow> call list \<Rightarrow> (exn + pyval) \<times> call list" where
  "search_web env query num_results calls =
     (case get_tavily_client env of
        Inl e \<Rightarrow> (Inl e, calls)
      | Inr client \<Rightarrow>
          (case tavily_search env calls client query num_results of
             Inl e \<Rightarrow> (Inl (ValueError (lit ''Web search failed: '' @ exn_str e)),
                       calls @ [SearchCall client query num_results])
           | Inr response \<Rightarrow> (Inr response, calls @ [SearchCall client query num_results])))"

section \<open>Reading a completion\<close>

text \<open>Sequencing of steps that may raise.\<close>

definition then_do :: "exn + 'a \<Rightarrow> ('a \<Rightarrow> exn + 'b) \<Rightarrow> exn + 'b" where
  "then_do r f = (case r of Inl e \<Rightarrow> Inl e | Inr x \<Rightarrow> f x)"

text \<open>
  \<open>response.choices[0].message.content\<close>, on which \<open>.strip()\<close> is then called:
  no choice is an IndexError, a content of \<open>None\<close> an AttributeError.
\<close>

definition message_content :: "chat_response \<Rightarrow> exn + pystr" where
  "message_content response =
     (case response of
        [] \<Rightarrow> Inl (IndexError (lit ''list index out of range''))
      | None # _ \<Rightarrow> Inl (AttributeError ([39] @ lit ''NoneType'' @ [39] @ lit '' object has no attribute '' @ [39] @ lit ''strip'' @ [39]))
      | Some raw # _ \<Rightarrow> Inr raw)"

definition parse_response :: "env \<Rightarrow> chat_response \<Rightarrow> exn + pyval" where
  "parse_response env response =
     then_do (message_content response) (\<lambda>raw.
     then_do (clean_response raw) (\<lambda>content.
     json_loads env content))"

section \<open>Claim extraction (claim_extractor.py)\<close>

definition CLAIM_EXTRACTION_PROMPT :: "pystr \<Rightarrow> pystr" where
  "CLAIM_EXTRACTION_PROMPT document_text =
     lit ''You are an expert fact-checker. Analyze the following document text and extract ALL verifiable claims that can be fact-checked against real-world data.\<newline>'' @
     lit ''\<newline>'' @
     lit ''Focus on extracting:\<newline>'' @
     lit ''1. Statistics and numerical data (percentages, amounts, counts)\<newline>'' @
     lit ''2. Dates and timelines (when events occurred or will occur)\<newline>'' @
     lit ''3. Financial figures (prices, GDP, market values, stock prices)\<newline>'' @
     lit ''4. Technical specifications and product details\<newline>'' @
     lit ''5. Company/organization statements and announcements\<newline>'' @
     lit ''6. Scientific or factual assertions\<newline>'' @
     lit ''\<newline>'' @
     lit ''For EACH claim, provide:\<newline>'' @
     lit ''- claim: The exact claim as stated in the document\<newline>'' @
     lit ''- category: One of [Statistics, Date/Timeline, Financial, Technical, Organizational, Scientific]\<newline>'' @
     lit ''- context: Brief context about what the claim relates to\<newline>'' @
     lit ''- verification_query: A specific search query to verify this claim\<newline>'' @
     lit ''\<newline>'' @
     lit ''Return your response as a JSON array of claim objects.\<newline>'' @
     lit ''\<newline>'' @
     lit ''DOCUMENT TEXT:\<newline>'' @
     document_text @
     lit ''\<newline>'' @
     lit ''\<newline>'' @
     lit ''IMPORTANT: Extract ALL factual claims, especially those involving specific numbers, dates, or named entities. Be thorough - the goal is to verify every checkable fact in the document.\<newline>'' @
     lit ''\<newline>'' @
     lit ''Return ONLY valid JSON array, no additional text.''"

definition max_chars :: nat where
  "max_chars = 50000"

text \<open>
  \<^verbatim>\<open>
  if len(document_text) > max_chars:
      document_text = document_text[:max_chars] + "\n...[truncated]"
  \<close>
\<close>

definition truncate_document :: "pystr \<Rightarrow> pystr" where
  "truncate_document document_text =
     (if length document_text > max_chars
      then take max_chars document_text @ lit ''\<newline>...[truncated]''
      else document_text)"

text \<open>
  The body of the \<open>try\<close> of \<open>extract_claims\<close>: one completion of at most 4000
  tokens, cleaned and parsed; a parsed value that is not a list is wrapped in one.
\<close>

definition extract_claims_try :: "env \<Rightarrow> pystr \<Rightarrow> pystr \<Rightarrow> call list \<Rightarrow> (exn + pyval list) \<times> call list" where
  "extract_claims_try env client document_text calls =
     (let model_name = get_model_name env;
          prompt = CLAIM_EXTRACTION_PROMPT document_text
      in (then_do (chat_create env calls client model_name prompt 4000) (\<lambda>response.
          then_do (parse_response env response) (\<lambda>claims.
          Inr (case claims of PyList cs \<Rightarrow> cs | _ \<Rightarrow> [claims]))),
          calls @ [ChatCall client model_name prompt 4000]))"

definition extract_claims :: "env \<Rightarrow> pystr \<Rightarrow> call list \<Rightarrow> (exn + pyval list) \<times> call list" where
  "extract_claims env document_text calls =
     (case get_openai_client env of
        Inl e \<Rightarrow> (Inl e, calls)
      | Inr client \<Rightarrow>
          (case extract_claims_try env client (truncate_document document_text) calls of
             (Inl (JSONDecodeError m), calls') \<Rightarrow>
               (Inl (ValueError (lit ''Failed to parse LLM response as JSON: '' @ m)), calls')
           | (Inl e, calls') \<Rightarrow>
               (Inl (ValueError (lit ''Claim extraction failed: '' @ exn_str e)), calls')
           | (Inr claims, calls') \<Rightarrow> (Inr claims, calls')))"

section \<open>Claim verification (fact_verifier.py)\<close>

definition VERIFICATION_PROMPT :: "pystr \<Rightarrow> pystr \<Rightarrow> pystr \<Rightarrow> pystr" where
  "VERIFICATION_PROMPT claim context search_results =
     lit ''You are an expert fact-checker. Analyze the following claim against the search results and determine its accuracy.\<newline>'' @
     lit ''\<newline>'' @
     lit ''CLAIM TO VERIFY:\<newline>'' @
     claim @
     lit ''\<newline>'' @
     lit ''\<newline>'' @
     lit ''CLAIM CONTEXT:\<newline>'' @
     context @
     lit ''\<newline>'' @
     lit ''\<newline>'' @
     lit ''SEARCH RESULTS:\<newline>'' @
     search_results @
     lit ''\<newline>'' @
     lit ''\<newline>'' @
     lit ''Analyze the claim and search results, then provide your assessment in the following JSON format:\<newline>'' @
     lit ''{\<newline>'' @
     lit ''    \"status\": \"Verified\" | \"Inaccurate\" | \"False\" | \"Unverifiable\",\<newline>'' @
     lit ''    \"confidence\": 0.0-1.0,\<newline>'' @
     lit ''    \"explanation\": \"Brief explanation of why this claim is verified/inaccurate/false\",\<newline>'' @
     lit ''    \"correct_information\": \"If the claim is inaccurate or false, provide the correct information found. Otherwise, leave empty.\",\<newline>'' @
     lit ''    \"sources\": [\"List of source URLs that support your conclusion\"]\<newline>'' @
     lit ''}\<newline>'' @
     lit ''\<newline>'' @
     lit ''IMPORTANT GUIDELINES:\<newline>'' @
     lit ''- \"Verified\": The claim matches current, reliable data\<newline>'' @
     lit ''- \"Inaccurate\": The claim contains outdated or partially incorrect information (e.g., old statistics)\<newline>'' @
     lit ''- \"False\": The claim is demonstrably wrong or no evidence supports it\<newline>'' @
     lit ''- \"Unverifiable\": Cannot determine accuracy from available sources\<newline>'' @
     lit ''\<newline>'' @
     lit ''Pay special attention to:\<newline>'' @
     lit ''- Dates and whether information might be outdated\<newline>'' @
     lit ''- Specific numbers that may have changed\<newline>'' @
     lit ''- Events that may or may not have occurred\<newline>'' @
     lit ''\<newline>'' @
     lit ''Return ONLY valid JSON, no additional text.''"


text \<open>
  The evidence block, built between the two \<open>try\<close> blocks of \<open>verify_claim\<close>:
  \<^verbatim>\<open>
  formatted_results = []
  if search_results.get("answer"):
      formatted_results.append(f"AI Summary: {search_results['answer']}")
  for result in search_results.get("results", [])[:5]:
      formatted_results.append(
          f"Source: {result.get('url', 'Unknown')}\n"
          f"Title: {result.get('title', 'No title')}\n"
          f"Content: {result.get('content', 'No content')}\n")
  search_text = "\n\n".join(formatted_results)
  \<close>
  Nothing here is guarded: a response that is not a dictionary, a \<open>results\<close> that
  cannot be sliced, or a result that is not a dictionary raises. A string can be
  sliced, and its elements are its characters.
\<close>

definition first_results :: "pyval \<Rightarrow> exn + pyval list" where
  "first_results v =
     (case v of
        PyList rs \<Rightarrow> Inr (take 5 rs)
      | PyStr s \<Rightarrow> Inr (map (\<lambda>c. PyStr [c]) (take 5 s))
      | _ \<Rightarrow> Inl (no_slice_error v))"

definition format_result :: "builtins \<Rightarrow> pyval \<Rightarrow> exn + pystr" where
  "format_result b result =
     (case result of
        PyDict r \<Rightarrow>
          Inr (lit ''Source: '' @ py_str b (dict_get r (lit ''url'') (PyStr (lit ''Unknown''))) @ lit ''\<newline>'' @
               lit ''Title: '' @ py_str b (dict_get r (lit ''title'') (PyStr (lit ''No title''))) @ lit ''\<newline>'' @
               lit ''Content: '' @ py_str b (dict_get r (lit ''content'') (PyStr (lit ''No content''))) @ lit ''\<newline>'')
      | _ \<Rightarrow> Inl (no_get_error result))"

fun format_results :: "builtins \<Rightarrow> pyval list \<Rightarrow> exn + pystr list" where
  "format_results b [] = Inr []"
| "format_results b (result # rest) =
     then_do (format_result b result) (\<lambda>x. then_do (format_results b rest) (\<lambda>xs. Inr (x # xs)))"

definition format_search_results :: "builtins \<Rightarrow> pyval \<Rightarrow> exn + pystr" where
  "format_search_results b search_results =
     (case search_results of
        PyDict d \<Rightarrow>
          (let answer = dict_get d (lit ''answer'') PyNone;
               summary = (if py_truthy answer then [lit ''AI Summary: '' @ py_str b answer] else [])
           in then_do (first_results (dict_get d (lit ''results'') (PyList []))) (\<lambda>results.
              then_do (format_results b results) (\<lambda>formatted.
              Inr (py_join (lit ''\<newline>\<newline>'') (summary @ formatted)))))
      | _ \<Rightarrow> Inl (no_get_error search_results))"

text \<open>The verdict that both \<open>except\<close> branches of \<open>verify_claim\<close> build.\<close>

definition unverifiable :: "pydict \<Rightarrow> pyval \<Rightarrow> pystr \<Rightarrow> pydict" where
  "unverifiable claim claim_text explanation =
     [(lit ''claim'', claim_text),
      (lit ''category'', dict_get claim (lit ''category'') (PyStr (lit ''Unknown''))),
      (lit ''status'', PyStr (lit ''Unverifiable'')),
      (lit ''confidence'', PyFloat 0),
      (lit ''explanation'', PyStr explanation),
      (lit ''correct_information'', PyStr []),
      (lit ''sources'', PyList [])]"

text \<open>
  \<open>result["claim"] = ...\<close> on a parsed value that is not a dictionary raises a
  TypeError.
\<close>

definition item_assignment_error :: "pyval \<Rightarrow> exn" where
  "item_assignment_error v =
     (case v of
        PyList _ \<Rightarrow> TypeError (lit ''list indices must be integers or slices, not str'')
      | _ \<Rightarrow> TypeError ([39] @ py_type_name v @ [39] @ lit '' object does not support item assignment''))"

text \<open>
  The body of the second \<open>try\<close> of \<open>verify_claim\<close>: one completion of at most
  1000 tokens, cleaned and parsed, then \<open>claim\<close> and \<open>category\<close> written over the
  parsed dictionary.
\<close>

definition verify_claim_try :: "env \<Rightarrow> pystr \<Rightarrow> pydict \<Rightarrow> pyval \<Rightarrow> pyval \<Rightarrow> pystr \<Rightarrow> call list \<Rightarrow> (exn + pydict) \<times> call list" where
  "verify_claim_try env openai_client claim claim_text context search_text calls =
     (let model_name = get_model_name env;
          prompt = VERIFICATION_PROMPT (py_str (runtime env) claim_text)
                     (py_str (runtime env) context) search_text
      in (then_do (chat_create env calls openai_client model_name prompt 1000) (\<lambda>response.
          then_do (parse_response env response) (\<lambda>result.
          case result of
            PyDict d \<Rightarrow>
              Inr (dict_set (dict_set d (lit ''claim'') claim_text) (lit ''category'')
                     (dict_get claim (lit ''category'') (PyStr (lit ''Unknown''))))
          | _ \<Rightarrow> Inl (item_assignment_error result))),
          calls @ [ChatCall openai_client model_name prompt 1000]))"

text \<open>
  \<open>verify_claim\<close>. A claim that is not a dictionary has no \<open>get\<close>. The evidence
  block and the judgment client are built between the two \<open>try\<close> blocks, so their
  exceptions are not caught.
\<close>

definition verify_claim :: "env \<Rightarrow> pyval \<Rightarrow> call list \<Rightarrow> (exn + pydict) \<times> call list" where
  "verify_claim env claim_value calls =
     (case claim_value of
        PyDict claim \<Rightarrow>
          (let claim_text = dict_get claim (lit ''claim'') (PyStr []);
               context = dict_get claim (lit ''context'') (PyStr []);
               query = dict_get claim (lit ''verification_query'') claim_text
           in case search_web env query 5 calls of
                (Inl e, calls1) \<Rightarrow>
                  (Inr (unverifiable claim claim_text (lit ''Could not search web: '' @ exn_str e)), calls1)
              | (Inr search_results, calls1) \<Rightarrow>
                  (case format_search_results (runtime env) search_results of
                     Inl e \<Rightarrow> (Inl e, calls1)
                   | Inr search_text \<Rightarrow>
                       (case get_openai_client env of
                          Inl e \<Rightarrow> (Inl e, calls1)
                        | Inr openai_client \<Rightarrow>
                            (case verify_claim_try env openai_client claim claim_text context search_text calls1 of
                               (Inl e, calls2) \<Rightarrow>
                                 (Inr (unverifiable claim claim_text
                                         (lit ''Verification analysis failed: '' @ exn_str e)), calls2)
                             | (Inr result, calls2) \<Rightarrow> (Inr result, calls2)))))
      | _ \<Rightarrow> (Inl (no_get_error claim_value), calls))"

text \<open>
  The third argument of the progress callback,
  \<open>claim.get("claim", "")[:50] + "..."\<close>; it raises when the claim text is not a
  string.
\<close>

definition claim_preview :: "pyval \<Rightarrow> exn + pystr" where
  "claim_preview claim_value =
     (case claim_value of
        PyDict claim \<Rightarrow>
          (case dict_get claim (lit ''claim'') (PyStr []) of
             PyStr s \<Rightarrow> Inr (take 50 s @ lit ''...'')
           | PyList _ \<Rightarrow> Inl (TypeError (lit ''can only concatenate list (not \"str\") to list''))
           | v \<Rightarrow> Inl (no_slice_error v))
      | _ \<Rightarrow> Inl (no_get_error claim_value))"

text \<open>
  A progress callback returns \<open>None\<close> or the exception it raises; like a
  provider, it may depend on the log so far.
\<close>

type_synonym callback = "call list \<Rightarrow> nat \<Rightarrow> nat \<Rightarrow> pystr \<Rightarrow> exn option"

definition report_progress :: "callback option \<Rightarrow> nat \<Rightarrow> nat \<Rightarrow> pyval \<Rightarrow> call list \<Rightarrow> exn option \<times> call list" where
  "report_progress progress_callback i n_total claim_value calls =
     (case progress_callback of
        None \<Rightarrow> (None, calls)
      | Some cb \<Rightarrow>
          (case claim_preview claim_value of
             Inl e \<Rightarrow> (Some e, calls)
           | Inr preview \<Rightarrow> (cb calls i n_total preview, calls @ [ProgressCall i n_total preview])))"

text \<open>
  The loop of \<open>verify_all_claims\<close>: \<open>i\<close> is the index of the next claim,
  \<open>results\<close> the list built so far. An exception of the callback or of
  \<open>verify_claim\<close> leaves the loop.
\<close>

fun verify_loop :: "env \<Rightarrow> callback option \<Rightarrow> nat \<Rightarrow> nat \<Rightarrow> pyval list \<Rightarrow> pydict list \<Rightarrow> call list \<Rightarrow> (exn + pydict list) \<times> call list" where
  "verify_loop env progress_callback n_total i [] results calls = (Inr results, calls)"
| "verify_loop env progress_callback n_total i (claim # rest) results calls =
     (case report_progress progress_callback i n_total claim calls of
        (Some e, calls1) \<Rightarrow> (Inl e, calls1)
      | (None, calls1) \<Rightarrow>
          (case verify_claim env claim calls1 of
             (Inl e, calls2) \<Rightarrow> (Inl e, calls2)
           | (Inr result, calls2) \<Rightarrow>
               verify_loop env progress_callback n_total (i + 1) rest (results @ [result]) calls2))"

definition verify_all_claims :: "env \<Rightarrow> pyval list \<Rightarrow> callback option \<Rightarrow> call list \<Rightarrow> (exn + pydict list) \<times> call list" where
  "verify_all_claims env claims progress_callback calls =
     verify_loop env progress_callback (length claims) 0 claims [] calls"

text \<open>The calls that reach the judgment provider.\<close>

fun is_chat_call :: "call \<Rightarrow> bool" where
  "is_chat_call (ChatCall _ _ _ _) = True"
| "is_chat_call _ = False"

section \<open>Text extraction (pdf_processor.py)\<close>

text \<open>
  The PDF library is outside the program: a document is either the exception that
  opening or reading it raises, or the text of each page (\<open>None\<close> for a page
  without text). Pages are numbered from 1; pages without text are skipped.
\<close>

type_synonym pdf = "exn + pystr option list"

fun page_texts :: "nat \<Rightarrow> pystr option list \<Rightarrow> pystr list" where
  "page_texts page_num [] = []"
| "page_texts page_num (page_text # pages) =
     (case page_text of
        Some t \<Rightarrow> (if t \<noteq> [] then [lit ''--- Page '' @ dec_nat page_num @ lit '' ---\<newline>'' @ t] else [])
      | None \<Rightarrow> []) @ page_texts (page_num + 1) pages"

definition extract_text_from_pdf :: "pdf \<Rightarrow> exn + pystr" where
  "extract_text_from_pdf pdf_file =
     (case pdf_file of
        Inl e \<Rightarrow> Inl (ValueError (lit ''Failed to extract text from PDF: '' @ exn_str e))
      | Inr pages \<Rightarrow>
          (let text_content = page_texts 1 pages in
           if text_content = [] then
             Inl (ValueError (lit ''No text could be extracted from the PDF. The document may be scanned or image-based.''))
           else Inr (py_join (lit ''\<newline>\<newline>'') text_content)))"

section \<open>The application (app.py)\<close>

text \<open>
  The display order of \<open>main\<close>:
  \<^verbatim>\<open>
  priority_order = {"False": 0, "Inaccurate": 1, "Unverifiable": 2, "Verified": 3}
  sorted_results = sorted(results, key=lambda x: priority_order.get(x.get("status", ""), 4))
  \<close>
  Looking a list or a dictionary up in \<open>priority_order\<close> raises TypeError, since
  they cannot be hashed; every other value that is not one of the four keys gets 4.
\<close>

definition priority_order :: "(pystr \<times> nat) list" where
  "priority_order =
     [(lit ''False'', 0), (lit ''Inaccurate'', 1), (lit ''Unverifiable'', 2), (lit ''Verified'', 3)]"

definition sort_key_of :: "pydict \<Rightarrow> exn + nat" where
  "sort_key_of x =
     (case dict_get x (lit ''status'') (PyStr []) of
        PyStr s \<Rightarrow> Inr (case map_of priority_order s of Some n \<Rightarrow> n | None \<Rightarrow> 4)
      | PyList _ \<Rightarrow> Inl (TypeError (lit ''unhashable type: '' @ [39] @ lit ''list'' @ [39]))
      | PyDict _ \<Rightarrow> Inl (TypeError (lit ''unhashable type: '' @ [39] @ lit ''dict'' @ [39]))
      | _ \<Rightarrow> Inr 4)"

text \<open>\<open>sorted\<close> computes the key of every element first, in order, and stops at the
  first one that raises.\<close>

fun sort_keys :: "pydict list \<Rightarrow> exn + nat list" where
  "sort_keys [] = Inr []"
| "sort_keys (x # xs) =
     then_do (sort_key_of x) (\<lambda>k. then_do (sort_keys xs) (\<lambda>ks. Inr (k # ks)))"

text \<open>
  \<open>sorted\<close> is stable: elements with equal keys keep their order. The library's
  \<open>sort_key\<close> (insertion of each element before the first one whose key is not
  smaller, from the right) is such a sort.
\<close>

definition sort_results :: "pydict list \<Rightarrow> exn + pydict list" where
  "sort_results results =
     then_do (sort_keys results) (\<lambda>ks. Inr (map snd (sort_key fst (zip ks results))))"

text \<open>The data of the download button, \<open>str(results)\<close>.\<close>

definition download_data :: "builtins \<Rightarrow> pydict list \<Rightarrow> pystr" where
  "download_data b results = py_str b (PyList (map PyDict results))"

text \<open>
  The notifications of a run: \<open>st.error\<close>, \<open>st.info\<close> and \<open>st.success\<close>, in the
  order shown. Headings, progress lines and other markup are not recorded.
\<close>

datatype notification = St_error pystr | St_info pystr | St_success pystr

text \<open>
  The API status of the sidebar, which \<open>main\<close> shows on every run before anything
  else:
  \<^verbatim>\<open>
  openai_ok = bool(get_secret("OPENROUTER_API_KEY"))
  tavily_ok = bool(get_secret("TAVILY_API_KEY"))
  \<close>
  and one \<open>st.success\<close> or \<open>st.error\<close> for each.
\<close>

definition api_status :: "env \<Rightarrow> notification list" where
  "api_status env =
     (let openai_ok = (get_secret env (lit ''OPENROUTER_API_KEY'') [] \<noteq> []);
          tavily_ok = (get_secret env (lit ''TAVILY_API_KEY'') [] \<noteq> [])
      in [if openai_ok then St_success ([9989] @ lit '' OpenAI API configured'')
          else St_error ([10060] @ lit '' OpenAI API key missing''),
          if tavily_ok then St_success ([9989] @ lit '' Tavily API configured'')
          else St_error ([10060] @ lit '' Tavily API key missing'')])"

text \<open>
  \<open>display_result\<close>: the notifications it shows and the exception it raises, if
  any. It raises
  \<^item> when the status cannot be hashed (\<open>get_status_emoji\<close> looks it up in a
    dictionary);
  \<^item> when the claim cannot be sliced (\<open>claim[:80]\<close> in the title);
  \<^item> when the confidence is not a number (\<open>f"{confidence:.0%}"\<close>);
  \<^item> after \<open>st.info(claim)\<close> and a possible \<open>st.success(correct_info)\<close>, when
    \<open>sources\<close> is true and cannot be sliced (\<open>sources[:3]\<close>).
\<close>

definition unhashable_error :: "pyval \<Rightarrow> exn" where
  "unhashable_error v = TypeError (lit ''unhashable type: '' @ [39] @ py_type_name v @ [39])"

definition percent_format_error :: "pyval \<Rightarrow> exn option" where
  "percent_format_error v =
     (case v of
        PyInt _ \<Rightarrow> None
      | PyFloat _ \<Rightarrow> None
      | PyBool _ \<Rightarrow> None
      | PyStr _ \<Rightarrow> Some (ValueError (lit ''Unknown format code '' @ [39] @ lit ''%'' @ [39] @
                      lit '' for object of type '' @ [39] @ lit ''str'' @ [39]))
      | _ \<Rightarrow> Some (TypeError (lit ''unsupported format string passed to '' @ py_type_name v @
                      lit ''.__format__'')))"

definition can_slice :: "pyval \<Rightarrow> bool" where
  "can_slice v = (case v of PyStr _ \<Rightarrow> True | PyList _ \<Rightarrow> True | _ \<Rightarrow> False)"

definition display_result :: "builtins \<Rightarrow> pydict \<Rightarrow> nat \<Rightarrow> notification list \<times> exn option" where
  "display_result b result index =
     (let status = dict_get result (lit ''status'') (PyStr (lit ''Unknown''));
          claim = dict_get result (lit ''claim'') (PyStr (lit ''Unknown claim''));
          correct_info = dict_get result (lit ''correct_information'') (PyStr []);
          sources = dict_get result (lit ''sources'') (PyList []);
          confidence = dict_get result (lit ''confidence'') (PyInt 0)
      in if (case status of PyList _ \<Rightarrow> True | PyDict _ \<Rightarrow> True | _ \<Rightarrow> False)
         then ([], Some (unhashable_error status))
         else if \<not> can_slice claim then ([], Some (no_slice_error claim))
         else (case percent_format_error confidence of
                 Some e \<Rightarrow> ([], Some e)
               | None \<Rightarrow>
                   (let shown = [St_info (py_str b claim)] @
                          (if py_truthy correct_info \<and>
                              (status = PyStr (lit ''Inaccurate'') \<or> status = PyStr (lit ''False''))
                           then [St_success (py_str b correct_info)] else [])
                    in if py_truthy sources \<and> \<not> can_slice sources
                       then (shown, Some (no_slice_error sources))
                       else (shown, None))))"

text \<open>The loop \<open>for i, result in enumerate(sorted_results): display_result(result, i)\<close>.\<close>

fun display_results :: "builtins \<Rightarrow> pydict list \<Rightarrow> nat \<Rightarrow> notification list \<times> exn option" where
  "display_results b [] i = ([], None)"
| "display_results b (result # rest) i =
     (case display_result b result i of
        (shown, Some e) \<Rightarrow> (shown, Some e)
      | (shown, None) \<Rightarrow>
          (case display_results b rest (i + 1) of (later, r) \<Rightarrow> (shown @ later, r)))"

text \<open>
  What a run of \<open>main\<close> ends with, once a file is uploaded and the button pressed,
  each with the notifications shown:
  \<^item> \<open>Stopped shown\<close>: \<open>main\<close> returns early;
  \<^item> \<open>Crashed shown e\<close>: an exception outside the \<open>try\<close> (from the sort or from
    \<open>display_result\<close>);
  \<^item> \<open>Report shown results sorted_results data\<close>: the verdicts, the list displayed
    and the data of the download button.
\<close>

datatype outcome =
    Stopped "notification list"
  | Crashed "notification list" exn
  | Report "notification list" "pydict list" "pydict list" pystr

text \<open>\<open>update_progress\<close> moves the progress bar and writes a line; it does not raise.\<close>

definition update_progress :: callback where
  "update_progress calls current n_total preview = None"

text \<open>
  \<open>main\<close>, once a file is uploaded and the button pressed. The sidebar comes
  first, then the check of the two keys, then the guarded pipeline, whose exception
  is shown by \<open>st.error\<close>. After it \<open>display_stats\<close> counts the verdicts of each
  of the four statuses with \<open>r.get("status") == ...\<close>, which does not raise on a
  dictionary, and writes markup only, so that it adds nothing to the outcome; then
  come the sort, the display loop and the download button, outside any \<open>try\<close>.
\<close>

definition run_error :: "exn \<Rightarrow> notification" where
  "run_error e = St_error (lit ''An error occurred: '' @ exn_str e)"

definition main :: "env \<Rightarrow> pdf \<Rightarrow> call list \<Rightarrow> outcome \<times> call list" where
  "main env uploaded_file calls =
     (let sidebar = api_status env;
          openai_key = get_secret env (lit ''OPENROUTER_API_KEY'') [] in
      if openai_key = [] \<or> get_secret env (lit ''TAVILY_API_KEY'') [] = [] then
        (Stopped (sidebar @
           [St_error ([9888, 65039] @ lit '' Please configure API keys in Streamlit secrets to use this app.''),
            St_info (lit ''Add OPENROUTER_API_KEY and TAVILY_API_KEY to your secrets.toml file or Streamlit Cloud secrets.'')]),
         calls)
      else
        (case extract_text_from_pdf uploaded_file of
           Inl e \<Rightarrow> (Stopped (sidebar @ [run_error e]), calls)
         | Inr document_text \<Rightarrow>
             (case extract_claims env document_text calls of
                (Inl e, calls1) \<Rightarrow> (Stopped (sidebar @ [run_error e]), calls1)
              | (Inr claims, calls1) \<Rightarrow>
                  (case verify_all_claims env claims (Some update_progress) calls1 of
                     (Inl e, calls2) \<Rightarrow> (Stopped (sidebar @ [run_error e]), calls2)
                   | (Inr results, calls2) \<Rightarrow>
                       (case sort_results results of
                          Inl e \<Rightarrow> (Crashed sidebar e, calls2)
                        | Inr sorted_results \<Rightarrow>
                            (case display_results (runtime env) sorted_results 0 of
                               (shown, Some e) \<Rightarrow> (Crashed (sidebar @ shown) e, calls2)
                             | (shown, None) \<Rightarrow>
                                 (Report (sidebar @ shown) results sorted_results
                                    (download_data (runtime env) results), calls2)))))))"

section \<open>Properties of verdicts\<close>

text \<open>
  The fallback verdict as the specification describes it: status Unverifiable,
  confidence 0.0 and the given reason as explanation.
\<close>

definition is_unverifiable :: "pydict \<Rightarrow> pystr \<Rightarrow> bool" where
  "is_unverifiable verdict reason \<longleftrightarrow>
     map_of verdict (lit ''status'') = Some (PyStr (lit ''Unverifiable'')) \<and>
     map_of verdict (lit ''confidence'') = Some (PyFloat 0) \<and>
     map_of verdict (lit ''explanation'') = Some (PyStr reason)"

text \<open>
  The specification's data model: a status is one of four strings, a confidence a
  number between 0 and 1.
\<close>

definition valid_status :: "pyval \<Rightarrow> bool" where
  "valid_status v \<longleftrightarrow>
     v = PyStr (lit ''Verified'') \<or> v = PyStr (lit ''Inaccurate'') \<or>
     v = PyStr (lit ''False'') \<or> v = PyStr (lit ''Unverifiable'')"

definition valid_confidence :: "pyval \<Rightarrow> bool" where
  "valid_confidence v \<longleftrightarrow>
     (case v of PyFloat x \<Rightarrow> 0 \<le> x \<and> x \<le> 1 | PyInt i \<Rightarrow> 0 \<le> i \<and> i \<le> 1 | _ \<Rightarrow> False)"

text \<open>
  The search provider's wire contract in the specification: the response is an
  object whose \<open>results\<close>, when present, is a list of objects. The evidence block
  of \<open>verify_claim\<close> is built without raising from such a response.
\<close>

fun is_object :: "pyval \<Rightarrow> bool" where
  "is_object (PyDict _) = True"
| "is_object _ = False"

definition well_formed_response :: "pyval \<Rightarrow> bool" where
  "well_formed_response v =
     (case v of
        PyDict d \<Rightarrow>
          (case map_of d (lit ''results'') of
             None \<Rightarrow> True
           | Some (PyList rs) \<Rightarrow> list_all is_object rs
           | Some _ \<Rightarrow> False)
      | _ \<Rightarrow> False)"

section \<open>Notions used to state the properties of the batch and of the display\<close>

text \<open>
  The log at the moment \<open>verify_all_claims\<close> calls \<open>verify_claim\<close> for the claim
  of index \<open>j\<close>: the log after the loop has run over the claims before it, extended
  by the progress report for claim \<open>j\<close>.
\<close>

definition calls_at :: "env \<Rightarrow> callback option \<Rightarrow> pyval list \<Rightarrow> call list \<Rightarrow> nat \<Rightarrow> call list" where
  "calls_at env progress_callback claims calls j =
     snd (report_progress progress_callback j (length claims) (claims ! j)
            (snd (verify_loop env progress_callback (length claims) 0 (take j claims) [] calls)))"

text \<open>
  The status of a verdict as the sort reads it, \<open>x.get("status", "")\<close>, and the
  display rank in the specification's words: False first, then Inaccurate,
  Unverifiable, Verified, and every other status last.
\<close>

definition status_of :: "pydict \<Rightarrow> pyval" where
  "status_of x = dict_get x (lit ''status'') (PyStr [])"

definition severity :: "pydict \<Rightarrow> nat" where
  "severity x =
     (if status_of x = PyStr (lit ''False'') then 0
      else if status_of x = PyStr (lit ''Inaccurate'') then 1
      else if status_of x = PyStr (lit ''Unverifiable'') then 2
      else if status_of x = PyStr (lit ''Verified'') then 3
      else 4)"

text \<open>The values Python can hash: all but lists and dictionaries.\<close>

definition hashable :: "pyval \<Rightarrow> bool" where
  "hashable v = (case v of PyList _ \<Rightarrow> False | PyDict _ \<Rightarrow> False | _ \<Rightarrow> True)"

section \<open>Sample environments\<close>

text \<open>
  Concrete environments on which the theorems below are run. \<open>sample_loads\<close>
  agrees with \<open>json.loads\<close> on the two JSON objects that the samples parse; no
  sample hands it another text. The sample runtime stands for Python only on ASCII
  text and on the float 0.0; no sample asks it about anything else.
\<close>

definition sample_loads :: "pystr \<Rightarrow> exn + pyval" where
  "sample_loads s =
     (if s = lit ''{\"status\": \"Maybe\", \"confidence\": 7}'' then
        Inr (PyDict [(lit ''status'', PyStr (lit ''Maybe'')), (lit ''confidence'', PyInt 7)])
      else if s = lit ''{\"status\": \"Verified\", \"confidence\": 1}'' then
        Inr (PyDict [(lit ''status'', PyStr (lit ''Verified'')), (lit ''confidence'', PyInt 1)])
      else Inl (JSONDecodeError (lit ''Expecting value: line 1 column 1 (char 0)'')))"

definition sample_runtime :: builtins where
  "sample_runtime = \<lparr> isprintable = (\<lambda>c. 161 \<le> c \<and> c \<le> 255 \<and> c \<noteq> 173),
                      float_repr = (\<lambda>x. if x = 0 then lit ''0.0'' else []) \<rparr>"

text \<open>
  \<open>sample_env keys found completion\<close>: the secrets \<open>keys\<close>, a search provider that
  always answers \<open>found\<close> and a completion provider that always answers
  \<open>completion\<close>.
\<close>

definition sample_env :: "(pystr \<times> pystr) list \<Rightarrow> exn + pyval \<Rightarrow> exn + chat_response \<Rightarrow> env" where
  "sample_env keys found completion =
     \<lparr> secrets = Some keys,
       tavily_search = (\<lambda>calls key query num_results. found),
       chat_create = (\<lambda>calls key model prompt max_tokens. completion),
       json_loads = sample_loads,
       runtime = sample_runtime \<rparr>"

text \<open>
  \<open>selective_env lost found completion\<close>: both keys, a search provider that times
  out for the query \<open>lost\<close> and answers \<open>found\<close> for every other query, and a
  completion provider that always answers \<open>completion\<close>.
\<close>

definition selective_env :: "pyval \<Rightarrow> pyval \<Rightarrow> exn + chat_response \<Rightarrow> env" where
  "selective_env lost found completion =
     \<lparr> secrets = Some [(lit ''OPENROUTER_API_KEY'', lit ''sk-or-1''), (lit ''TAVILY_API_KEY'', lit ''tvly-1'')],
       tavily_search = (\<lambda>calls key query num_results.
          if query = lost then Inl (ExternalError (lit ''timed out'')) else Inr found),
       chat_create = (\<lambda>calls key model prompt max_tokens. completion),
       json_loads = sample_loads,
       runtime = sample_runtime \<rparr>"

definition both_keys :: "(pystr \<times> pystr) list" where
  "both_keys = [(lit ''OPENROUTER_API_KEY'', lit ''sk-or-1''), (lit ''TAVILY_API_KEY'', lit ''tvly-1'')]"

definition search_key_only :: "(pystr \<times> pystr) list" where
  "search_key_only = [(lit ''TAVILY_API_KEY'', lit ''tvly-1'')]"

text \<open>Search responses: one without evidence, one with an answer and one result, and
  one whose \<open>results\<close> is \<open>null\<close>.\<close>

definition no_evidence :: pyval where
  "no_evidence = PyDict [(lit ''answer'', PyNone), (lit ''results'', PyList [])]"

definition some_evidence :: pyval where
  "some_evidence =
     PyDict [(lit ''answer'', PyStr (lit ''Revenue grew 12%.'')),
             (lit ''results'',
              PyList [PyDict [(lit ''url'', PyStr (lit ''https://example.com/report'')),
                              (lit ''title'', PyStr (lit ''Annual report'')),
                              (lit ''content'', PyStr (lit ''Revenue grew 12% in 2023.''))]])]"

definition null_results :: pyval where
  "null_results = PyDict [(lit ''results'', PyNone)]"

definition timeout :: exn where
  "timeout = ExternalError (lit ''timed out'')"

text \<open>A progress callback that raises at the claim of index \<open>k\<close>.\<close>

definition failing_callback :: "nat \<Rightarrow> callback" where
  "failing_callback k calls i n preview =
     (if i = k then Some (ExternalError (lit ''progress bar is gone'')) else None)"

definition sample_claim :: pydict where
  "sample_claim = [(lit ''claim'', PyStr (lit ''Company X grew revenue 40% in 2023.'')),
                   (lit ''category'', PyStr (lit ''Financial''))]"

definition second_claim :: pydict where
  "second_claim = [(lit ''claim'', PyStr (lit ''Company X was founded in 1999.'')),
                   (lit ''category'', PyStr (lit ''Date/Timeline''))]"

section \<open>Facts about literals\<close>

lemma lit_eq_iff [simp]: "lit s = lit t \<longleftrightarrow> s = t"
proof -
  have "inj (of_char :: char \<Rightarrow> nat)"
    by (rule inj_on_inverseI [where g = char_of]) simp
  then show ?thesis
    by (simp add: lit_def inj_map_eq_map)
qed

lemma lit_Nil [simp]: "lit [] = []"
  by (simp add: lit_def)

lemma lit_eq_Nil_iff [simp]: "lit s = [] \<longleftrightarrow> s = []" "[] = lit s \<longleftrightarrow> s = []"
  by (auto simp: lit_def)

lemma lit_append: "lit (s @ t) = lit s @ lit t"
  by (simp add: lit_def)

section \<open>Facts about the configuration\<close>

lemma get_openai_client_sample:
  "get_openai_client (sample_env both_keys found completion) = Inr (lit ''sk-or-1'')"
  by (simp add: get_openai_client_def get_secret_def sample_env_def both_keys_def)

lemma get_model_name_sample:
  assumes "map_of keys (lit ''OpenAi_API_KEY'') = None"
  shows "get_model_name (sample_env keys found completion) = lit ''google/gemma-2-9b-it''"
  using assms by (simp add: get_model_name_def get_secret_def sample_env_def)

lemma map_of_both_keys_model: "map_of both_keys (lit ''OpenAi_API_KEY'') = None"
  by (simp add: both_keys_def)

section \<open>The prompt of claim extraction\<close>

lemma length_lit: "length (lit s) = length s"
  by (simp add: lit_def)

lemma snd_extract_claims_try:
  "snd (extract_claims_try env client text calls) =
     calls @ [ChatCall client (get_model_name env) (CLAIM_EXTRACTION_PROMPT text) 4000]"
  by (simp add: extract_claims_try_def Let_def)

lemma snd_extract_claims:
  assumes "get_openai_client env = Inr client"
  shows "snd (extract_claims env document_text calls) =
     calls @ [ChatCall client (get_model_name env)
        (CLAIM_EXTRACTION_PROMPT (truncate_document document_text)) 4000]"
proof -
  obtain r calls' where t:
    "extract_claims_try env client (truncate_document document_text) calls = (r, calls')"
    by (cases "extract_claims_try env client (truncate_document document_text) calls")
  have c: "calls' = calls @ [ChatCall client (get_model_name env)
        (CLAIM_EXTRACTION_PROMPT (truncate_document document_text)) 4000]"
    using snd_extract_claims_try[of env client "truncate_document document_text" calls] t
    by simp
  have "snd (extract_claims env document_text calls) = calls'"
    using assms t by (simp add: extract_claims_def split: sum.splits exn.splits)
  then show ?thesis
    using c by simp
qed

text \<open>The template puts its argument between two fixed texts.\<close>

lemma embeds_base: "\<exists>head tail. \<forall>t. t @ b = head @ t @ tail"
  by (rule exI[of _ "[]"], rule exI[of _ b]) simp

lemma embeds_prepend:
  assumes "\<exists>head tail. \<forall>t. f t = head @ t @ tail"
  shows "\<exists>head tail. \<forall>t. a @ f t = head @ t @ tail"
proof -
  from assms obtain head tail where "\<forall>t. f t = head @ t @ tail" by blast
  then have "\<forall>t. a @ f t = (a @ head) @ t @ tail" by simp
  then show ?thesis by blast
qed

lemma CLAIM_EXTRACTION_PROMPT_embeds:
  "\<exists>head tail. \<forall>t. CLAIM_EXTRACTION_PROMPT t = head @ t @ tail"
  unfolding CLAIM_EXTRACTION_PROMPT_def
  by (intro embeds_prepend embeds_base)

text \<open>
  C8. There are two fixed texts, the part of the prompt before the document and the
  part after it, such that whenever \<open>extract_claims\<close> gets as far as a prompt (the
  judgment key is configured) it makes exactly one completion call, whose prompt is
  the first part, then the document text, then the second part, where a document
  text longer than 50,000 characters is cut to its first 50,000 characters followed
  by the truncation marker, and a document text of at most 50,000 characters is
  there unchanged.
\<close>

theorem extract_claims_prompt:
  "\<exists>head tail. \<forall>env client document_text calls.
     get_openai_client env = Inr client \<longrightarrow>
     snd (extract_claims env document_text calls) =
       calls @ [ChatCall client (get_model_name env)
          (head @
           (if length document_text > 50000
            then take 50000 document_text @ lit ''\<newline>...[truncated]''
            else document_text) @
           tail) 4000]"
proof -
  obtain head tail where h: "\<forall>t. CLAIM_EXTRACTION_PROMPT t = head @ t @ tail"
    using CLAIM_EXTRACTION_PROMPT_embeds by blast
  have "\<forall>env client document_text calls.
     get_openai_client env = Inr client \<longrightarrow>
     snd (extract_claims env document_text calls) =
       calls @ [ChatCall client (get_model_name env)
          (head @
           (if length document_text > 50000
            then take 50000 document_text @ lit ''\<newline>...[truncated]''
            else document_text) @
           tail) 4000]"
    using h by (simp add: snd_extract_claims truncate_document_def max_chars_def)
  then show ?thesis by blast
qed

lemma length_sample_text: "length (lit ''Company X grew revenue 40% in 2023.'') = 35"
  by (simp add: length_lit)

theorem extract_claims_prompt_witness:
  "get_openai_client (sample_env both_keys (Inl timeout) (Inl timeout)) = Inr (lit ''sk-or-1'') \<and>
   (\<exists>head tail.
      snd (extract_claims (sample_env both_keys (Inl timeout) (Inl timeout))
             (lit ''Company X grew revenue 40% in 2023.'' @ replicate 49965 120 @ lit '' The end.'') []) =
        [ChatCall (lit ''sk-or-1'') (lit ''google/gemma-2-9b-it'')
           (head @ (lit ''Company X grew revenue 40% in 2023.'' @ replicate 49965 120 @
                    lit ''\<newline>...[truncated]'') @ tail) 4000] \<and>
      snd (extract_claims (sample_env both_keys (Inl timeout) (Inl timeout))
             (lit ''Company X grew revenue 40% in 2023.'') []) =
        [ChatCall (lit ''sk-or-1'') (lit ''google/gemma-2-9b-it'')
           (head @ lit ''Company X grew revenue 40% in 2023.'' @ tail) 4000])"
proof -
  let ?env = "sample_env both_keys (Inl timeout) (Inl timeout)"
  let ?text = "lit ''Company X grew revenue 40% in 2023.''"
  let ?long = "?text @ replicate 49965 120 @ lit '' The end.''"
  have k: "get_openai_client ?env = Inr (lit ''sk-or-1'')"
    by (rule get_openai_client_sample)
  have m: "get_model_name ?env = lit ''google/gemma-2-9b-it''"
    by (rule get_model_name_sample) (rule map_of_both_keys_model)
  have l: "length ?long > 50000"
    by (simp add: length_sample_text length_lit)
  have c: "take 50000 ?long = ?text @ replicate 49965 120"
    by (simp add: length_sample_text)
  have s: "\<not> length ?text > 50000"
    by (simp add: length_sample_text)
  from extract_claims_prompt obtain head tail where h:
    "\<forall>env client document_text calls.
       get_openai_client env = Inr client \<longrightarrow>
       snd (extract_claims env document_text calls) =
         calls @ [ChatCall client (get_model_name env)
            (head @
             (if length document_text > 50000
              then take 50000 document_text @ lit ''\<newline>...[truncated]''
              else document_text) @
             tail) 4000]"
    by blast
  from h[rule_format, OF k, of ?long "[]"] l c m
  have a: "snd (extract_claims ?env ?long []) =
        [ChatCall (lit ''sk-or-1'') (lit ''google/gemma-2-9b-it'')
           (head @ (?text @ replicate 49965 120 @ lit ''\<newline>...[truncated]'') @ tail) 4000]"
    by (simp only: if_True append_Nil append_assoc)
  from h[rule_format, OF k, of ?text "[]"] s m
  have b: "snd (extract_claims ?env ?text []) =
        [ChatCall (lit ''sk-or-1'') (lit ''google/gemma-2-9b-it'') (head @ ?text @ tail) 4000]"
    by (simp only: if_False append_Nil)
  from k a b show ?thesis by blast
qed

section \<open>Verifying one claim\<close>

lemma search_web_calls:
  "filter is_chat_call (snd (search_web env query n calls)) = filter is_chat_call calls"
  by (simp add: search_web_def split: sum.splits)

lemma verify_claim_search_failed:
  assumes "search_web env (dict_get claim (lit ''verification_query'') (dict_get claim (lit ''claim'') (PyStr []))) 5 calls = (Inl e, calls1)"
  shows "verify_claim env (PyDict claim) calls =
     (Inr (unverifiable claim (dict_get claim (lit ''claim'') (PyStr []))
             (lit ''Could not search web: '' @ exn_str e)), calls1)"
  using assms by (simp add: verify_claim_def Let_def)

lemma unverifiable_fields:
  "map_of (unverifiable claim claim_text explanation) (lit ''status'') = Some (PyStr (lit ''Unverifiable''))"
  "map_of (unverifiable claim claim_text explanation) (lit ''confidence'') = Some (PyFloat 0)"
  "map_of (unverifiable claim claim_text explanation) (lit ''explanation'') = Some (PyStr explanation)"
  "map_of (unverifiable claim claim_text explanation) (lit ''correct_information'') = Some (PyStr [])"
  "map_of (unverifiable claim claim_text explanation) (lit ''sources'') = Some (PyList [])"
  by (simp_all add: unverifiable_def)

text \<open>
  C3. When the search step of \<open>verify_claim\<close> raises, \<open>verify_claim\<close> returns a
  verdict with status Unverifiable, confidence 0.0, an explanation that names the
  search failure, empty \<open>correct_information\<close> and empty \<open>sources\<close>, and the log
  gains no call to the judgment provider.
\<close>

theorem search_failure_short_circuits:
  assumes "fst (search_web env (dict_get claim (lit ''verification_query'')
                   (dict_get claim (lit ''claim'') (PyStr []))) 5 calls) = Inl e"
  shows "\<exists>verdict calls'. verify_claim env (PyDict claim) calls = (Inr verdict, calls') \<and>
      map_of verdict (lit ''status'') = Some (PyStr (lit ''Unverifiable'')) \<and>
      map_of verdict (lit ''confidence'') = Some (PyFloat 0) \<and>
      map_of verdict (lit ''explanation'') = Some (PyStr (lit ''Could not search web: '' @ exn_str e)) \<and>
      map_of verdict (lit ''correct_information'') = Some (PyStr []) \<and>
      map_of verdict (lit ''sources'') = Some (PyList []) \<and>
      filter is_chat_call calls' = filter is_chat_call calls"
proof -
  let ?q = "dict_get claim (lit ''verification_query'') (dict_get claim (lit ''claim'') (PyStr []))"
  obtain calls1 where s: "search_web env ?q 5 calls = (Inl e, calls1)"
    using assms by (cases "search_web env ?q 5 calls") simp
  have c: "filter is_chat_call calls1 = filter is_chat_call calls"
    using search_web_calls[of env ?q 5 calls] s by simp
  show ?thesis
    using verify_claim_search_failed[OF s] c by (simp add: unverifiable_fields)
qed

theorem search_failure_short_circuits_witness:
  "fst (search_web (sample_env both_keys (Inl timeout) (Inr [Some (lit ''{}'')]))
          (dict_get sample_claim (lit ''verification_query'')
             (dict_get sample_claim (lit ''claim'') (PyStr []))) 5 []) =
     Inl (ValueError (lit ''Web search failed: timed out'')) \<and>
   verify_claim (sample_env both_keys (Inl timeout) (Inr [Some (lit ''{}'')])) (PyDict sample_claim) [] =
     (Inr [(lit ''claim'', PyStr (lit ''Company X grew revenue 40% in 2023.'')),
           (lit ''category'', PyStr (lit ''Financial'')),
           (lit ''status'', PyStr (lit ''Unverifiable'')),
           (lit ''confidence'', PyFloat 0),
           (lit ''explanation'', PyStr (lit ''Could not search web: Web search failed: timed out'')),
           (lit ''correct_information'', PyStr []),
           (lit ''sources'', PyList [])],
      [SearchCall (lit ''tvly-1'') (PyStr (lit ''Company X grew revenue 40% in 2023.'')) 5])"
proof -
  let ?env = "sample_env both_keys (Inl timeout) (Inr [Some (lit ''{}'')])"
  let ?q = "dict_get sample_claim (lit ''verification_query'') (dict_get sample_claim (lit ''claim'') (PyStr []))"
  have s: "search_web ?env ?q 5 [] = (Inl (ValueError (lit ''Web search failed: timed out'')),
       [SearchCall (lit ''tvly-1'') (PyStr (lit ''Company X grew revenue 40% in 2023.'')) 5])"
    by (simp add: search_web_def get_tavily_client_def get_secret_def sample_env_def both_keys_def
        timeout_def dict_get_def sample_claim_def lit_append[symmetric])
  then have f: "fst (search_web ?env ?q 5 []) = Inl (ValueError (lit ''Web search failed: timed out''))"
    by simp
  from search_failure_short_circuits[OF f]
  obtain verdict calls' where v: "verify_claim ?env (PyDict sample_claim) [] = (Inr verdict, calls')"
    by blast
  have "verify_claim ?env (PyDict sample_claim) [] =
     (Inr (unverifiable sample_claim (dict_get sample_claim (lit ''claim'') (PyStr []))
        (lit ''Could not search web: '' @ exn_str (ValueError (lit ''Web search failed: timed out'')))),
      [SearchCall (lit ''tvly-1'') (PyStr (lit ''Company X grew revenue 40% in 2023.'')) 5])"
    using v s by (simp add: verify_claim_def Let_def)
  then show ?thesis
    using f by (simp add: unverifiable_def dict_get_def sample_claim_def lit_append[symmetric])
qed

lemma is_unverifiable_unverifiable:
  "is_unverifiable (unverifiable claim claim_text explanation) explanation"
  by (simp add: is_unverifiable_def unverifiable_fields)

lemma verify_claim_format_failed:
  assumes "search_web env (dict_get claim (lit ''verification_query'') (dict_get claim (lit ''claim'') (PyStr []))) 5 calls = (Inr found, calls1)"
    and "format_search_results (runtime env) found = Inl e"
  shows "verify_claim env (PyDict claim) calls = (Inl e, calls1)"
  using assms by (simp add: verify_claim_def Let_def)

lemma verify_claim_no_client:
  assumes "search_web env (dict_get claim (lit ''verification_query'') (dict_get claim (lit ''claim'') (PyStr []))) 5 calls = (Inr found, calls1)"
    and "format_search_results (runtime env) found = Inr search_text"
    and "get_openai_client env = Inl e"
  shows "verify_claim env (PyDict claim) calls = (Inl e, calls1)"
  using assms by (simp add: verify_claim_def Let_def)

lemma verify_claim_analysis_failed:
  assumes "search_web env (dict_get claim (lit ''verification_query'') (dict_get claim (lit ''claim'') (PyStr []))) 5 calls = (Inr found, calls1)"
    and "format_search_results (runtime env) found = Inr search_text"
    and "get_openai_client env = Inr client"
    and "verify_claim_try env client claim (dict_get claim (lit ''claim'') (PyStr []))
           (dict_get claim (lit ''context'') (PyStr [])) search_text calls1 = (Inl e, calls2)"
  shows "verify_claim env (PyDict claim) calls =
     (Inr (unverifiable claim (dict_get claim (lit ''claim'') (PyStr []))
             (lit ''Verification analysis failed: '' @ exn_str e)), calls2)"
  using assms by (simp add: verify_claim_def Let_def)

lemma verify_claim_analysed:
  assumes "search_web env (dict_get claim (lit ''verification_query'') (dict_get claim (lit ''claim'') (PyStr []))) 5 calls = (Inr found, calls1)"
    and "format_search_results (runtime env) found = Inr search_text"
    and "get_openai_client env = Inr client"
    and "verify_claim_try env client claim (dict_get claim (lit ''claim'') (PyStr []))
           (dict_get claim (lit ''context'') (PyStr [])) search_text calls1 = (Inr result, calls2)"
  shows "verify_claim env (PyDict claim) calls = (Inr result, calls2)"
  using assms by (simp add: verify_claim_def Let_def)

text \<open>A response that keeps the wire contract is formatted without an exception.\<close>

lemma format_results_objects:
  assumes "list_all is_object results"
  shows "\<exists>formatted. format_results b results = Inr formatted"
  using assms
proof (induction results)
  case Nil
  show ?case by simp
next
  case (Cons r rs)
  from Cons.prems obtain d where d: "r = PyDict d"
    by (cases r) simp_all
  from Cons.prems have "list_all is_object rs" by simp
  from Cons.IH[OF this] obtain formatted where "format_results b rs = Inr formatted"
    by blast
  with d show ?case
    by (simp add: format_result_def then_do_def)
qed

lemma list_all_take: "list_all P xs \<Longrightarrow> list_all P (take n xs)"
  by (auto simp: list_all_iff dest: in_set_takeD)

lemma format_search_results_well_formed:
  assumes "well_formed_response found"
  shows "\<exists>search_text. format_search_results b found = Inr search_text"
proof -
  from assms obtain d where d: "found = PyDict d"
    by (cases found) (simp_all add: well_formed_response_def)
  show ?thesis
  proof (cases "map_of d (lit ''results'')")
    case None
    then show ?thesis
      using d by (simp add: format_search_results_def dict_get_def first_results_def then_do_def Let_def)
  next
    case (Some v)
    with assms d obtain rs where v: "v = PyList rs" and a: "list_all is_object rs"
      by (cases v) (simp_all add: well_formed_response_def)
    from format_results_objects[OF list_all_take[OF a, of 5], of b]
    obtain formatted where "format_results b (take 5 rs) = Inr formatted"
      by blast
    then show ?thesis
      using d Some v
      by (simp add: format_search_results_def dict_get_def first_results_def then_do_def Let_def)
  qed
qed

lemma verify_claim_dict_returns:
  assumes "get_openai_client env = Inr client"
    and "\<forall>found. fst (search_web env (dict_get claim (lit ''verification_query'')
                  (dict_get claim (lit ''claim'') (PyStr []))) 5 calls) = Inr found \<longrightarrow>
                well_formed_response found"
  shows "\<exists>verdict calls'. verify_claim env (PyDict claim) calls = (Inr verdict, calls')"
proof -
  let ?q = "dict_get claim (lit ''verification_query'') (dict_get claim (lit ''claim'') (PyStr []))"
  obtain r calls1 where s: "search_web env ?q 5 calls = (r, calls1)"
    by (cases "search_web env ?q 5 calls")
  show ?thesis
  proof (cases r)
    case (Inl e)
    with s verify_claim_search_failed[of env claim calls e calls1] show ?thesis by simp
  next
    case (Inr found)
    with s assms(2) have "well_formed_response found" by simp
    from format_search_results_well_formed[OF this, of "runtime env"]
    obtain search_text where f: "format_search_results (runtime env) found = Inr search_text"
      by blast
    from s Inr have s': "search_web env ?q 5 calls = (Inr found, calls1)" by simp
    obtain t calls2 where t:
      "verify_claim_try env client claim (dict_get claim (lit ''claim'') (PyStr []))
         (dict_get claim (lit ''context'') (PyStr [])) search_text calls1 = (t, calls2)"
      by (cases "verify_claim_try env client claim (dict_get claim (lit ''claim'') (PyStr []))
         (dict_get claim (lit ''context'') (PyStr [])) search_text calls1")
    show ?thesis
    proof (cases t)
      case (Inl e)
      with t verify_claim_analysis_failed[OF s' f assms(1), of e calls2] show ?thesis by simp
    next
      case (Inr result)
      with t verify_claim_analysed[OF s' f assms(1), of result calls2] show ?thesis by simp
    qed
  qed
qed


lemma map_of_dict_set:
  "map_of (dict_set d k v) k' = (if k' = k then Some v else map_of d k')"
  by (induction d) auto

lemma verify_claim_try_chat_failed:
  assumes "chat_create env calls client (get_model_name env)
             (VERIFICATION_PROMPT (py_str (runtime env) claim_text) (py_str (runtime env) context) search_text)
             1000 = Inl e"
  shows "fst (verify_claim_try env client claim claim_text context search_text calls) = Inl e"
  using assms by (simp add: verify_claim_try_def Let_def then_do_def)

lemma verify_claim_try_parse_failed:
  assumes "chat_create env calls client (get_model_name env)
             (VERIFICATION_PROMPT (py_str (runtime env) claim_text) (py_str (runtime env) context) search_text)
             1000 = Inr response"
    and "parse_response env response = Inl e"
  shows "fst (verify_claim_try env client claim claim_text context search_text calls) = Inl e"
  using assms by (simp add: verify_claim_try_def Let_def then_do_def)

lemma verify_claim_try_not_a_dict:
  assumes "chat_create env calls client (get_model_name env)
             (VERIFICATION_PROMPT (py_str (runtime env) claim_text) (py_str (runtime env) context) search_text)
             1000 = Inr response"
    and "parse_response env response = Inr result"
    and "\<forall>d. result \<noteq> PyDict d"
  shows "fst (verify_claim_try env client claim claim_text context search_text calls) =
           Inl (item_assignment_error result)"
  using assms by (cases result) (simp_all add: verify_claim_try_def Let_def then_do_def)

lemma verify_claim_try_dict:
  assumes "chat_create env calls client (get_model_name env)
             (VERIFICATION_PROMPT (py_str (runtime env) claim_text) (py_str (runtime env) context) search_text)
             1000 = Inr response"
    and "parse_response env response = Inr (PyDict parsed)"
  shows "fst (verify_claim_try env client claim claim_text context search_text calls) =
           Inr (dict_set (dict_set parsed (lit ''claim'') claim_text) (lit ''category'')
                  (dict_get claim (lit ''category'') (PyStr (lit ''Unknown''))))"
  using assms by (simp add: verify_claim_try_def Let_def then_do_def)

lemma snd_verify_claim_try:
  "snd (verify_claim_try env client claim claim_text context search_text calls) =
     calls @ [ChatCall client (get_model_name env)
        (VERIFICATION_PROMPT (py_str (runtime env) claim_text) (py_str (runtime env) context) search_text)
        1000]"
  by (simp add: verify_claim_try_def Let_def)

text \<open>
  C9, as the code has it. What the status and the confidence of a verdict of
  \<open>verify_claim\<close> are, path by path. When the search raises, and when the
  completion call raises, the response cannot be read or parsed, or the parsed value
  is not a dictionary, the verdict is the fallback verdict: status Unverifiable,
  confidence 0.0 and the reason as explanation. Otherwise the log has gained the
  completion call with the verification prompt, and the \<open>status\<close> and
  \<open>confidence\<close> entries of the verdict are those of the dictionary parsed from the
  answer to that call, whatever they are, present or not: the answer is not
  validated.
\<close>

theorem verdict_status_and_confidence:
  assumes "verify_claim env (PyDict claim) calls = (Inr verdict, calls')"
  shows "(let claim_text = dict_get claim (lit ''claim'') (PyStr []);
              context = dict_get claim (lit ''context'') (PyStr []);
              query = dict_get claim (lit ''verification_query'') claim_text
          in case search_web env query 5 calls of
               (Inl e, calls1) \<Rightarrow>
                 calls' = calls1 \<and>
                 is_unverifiable verdict (lit ''Could not search web: '' @ exn_str e)
             | (Inr found, calls1) \<Rightarrow>
                 (\<exists>search_text client.
                    format_search_results (runtime env) found = Inr search_text \<and>
                    get_openai_client env = Inr client \<and>
                    (let prompt = VERIFICATION_PROMPT (py_str (runtime env) claim_text)
                                    (py_str (runtime env) context) search_text
                     in calls' = calls1 @ [ChatCall client (get_model_name env) prompt 1000] \<and>
                        (case chat_create env calls1 client (get_model_name env) prompt 1000 of
                           Inl e \<Rightarrow>
                             is_unverifiable verdict (lit ''Verification analysis failed: '' @ exn_str e)
                         | Inr response \<Rightarrow>
                             (case parse_response env response of
                                Inl e \<Rightarrow>
                                  is_unverifiable verdict
                                    (lit ''Verification analysis failed: '' @ exn_str e)
                              | Inr (PyDict parsed) \<Rightarrow>
                                  map_of verdict (lit ''status'') = map_of parsed (lit ''status'') \<and>
                                  map_of verdict (lit ''confidence'') = map_of parsed (lit ''confidence'')
                              | Inr other \<Rightarrow>
                                  is_unverifiable verdict
                                    (lit ''Verification analysis failed: '' @
                                     exn_str (item_assignment_error other)))))))"
proof -
  let ?text = "dict_get claim (lit ''claim'') (PyStr [])"
  let ?ctx = "dict_get claim (lit ''context'') (PyStr [])"
  let ?q = "dict_get claim (lit ''verification_query'') ?text"
  obtain r calls1 where s: "search_web env ?q 5 calls = (r, calls1)"
    by (cases "search_web env ?q 5 calls")
  show ?thesis
  proof (cases r)
    case (Inl e)
    with s have s': "search_web env ?q 5 calls = (Inl e, calls1)" by simp
    from verify_claim_search_failed[OF s'] assms s' show ?thesis
      by (auto simp: Let_def is_unverifiable_unverifiable)
  next
    case (Inr found)
    with s have s': "search_web env ?q 5 calls = (Inr found, calls1)" by simp
    show ?thesis
    proof (cases "format_search_results (runtime env) found")
      case (Inl e)
      from verify_claim_format_failed[OF s' Inl] assms show ?thesis by simp
    next
      case f: (Inr search_text)
      show ?thesis
      proof (cases "get_openai_client env")
        case (Inl e)
        from verify_claim_no_client[OF s' f Inl] assms show ?thesis by simp
      next
        case k: (Inr client)
        let ?prompt = "VERIFICATION_PROMPT (py_str (runtime env) ?text) (py_str (runtime env) ?ctx) search_text"
        let ?calls2 = "calls1 @ [ChatCall client (get_model_name env) ?prompt 1000]"
        obtain t where t: "verify_claim_try env client claim ?text ?ctx search_text calls1 = (t, ?calls2)"
          using snd_verify_claim_try[of env client claim ?text ?ctx search_text calls1]
          by (cases "verify_claim_try env client claim ?text ?ctx search_text calls1") simp
        have main: "calls' = ?calls2 \<and>
          (case chat_create env calls1 client (get_model_name env) ?prompt 1000 of
             Inl e \<Rightarrow> is_unverifiable verdict (lit ''Verification analysis failed: '' @ exn_str e)
           | Inr response \<Rightarrow>
               (case parse_response env response of
                  Inl e \<Rightarrow> is_unverifiable verdict (lit ''Verification analysis failed: '' @ exn_str e)
                | Inr (PyDict parsed) \<Rightarrow>
                    map_of verdict (lit ''status'') = map_of parsed (lit ''status'') \<and>
                    map_of verdict (lit ''confidence'') = map_of parsed (lit ''confidence'')
                | Inr other \<Rightarrow>
                    is_unverifiable verdict
                      (lit ''Verification analysis failed: '' @ exn_str (item_assignment_error other))))"
        proof (cases "chat_create env calls1 client (get_model_name env) ?prompt 1000")
          case c: (Inl e)
          from verify_claim_try_chat_failed[OF c, of claim] t have "t = Inl e" by simp
          with t have "verify_claim_try env client claim ?text ?ctx search_text calls1 = (Inl e, ?calls2)"
            by simp
          from verify_claim_analysis_failed[OF s' f k this] assms c show ?thesis
            by (auto simp: is_unverifiable_unverifiable)
        next
          case c: (Inr response)
          show ?thesis
          proof (cases "parse_response env response")
            case p: (Inl e)
            from verify_claim_try_parse_failed[OF c p, of claim] t have "t = Inl e" by simp
            with t have "verify_claim_try env client claim ?text ?ctx search_text calls1 = (Inl e, ?calls2)"
              by simp
            from verify_claim_analysis_failed[OF s' f k this] assms c p show ?thesis
              by (auto simp: is_unverifiable_unverifiable)
          next
            case p: (Inr result)
            show ?thesis
            proof (cases "\<exists>parsed. result = PyDict parsed")
              case True
              then obtain parsed where d: "result = PyDict parsed" by blast
              from verify_claim_try_dict[OF c p[unfolded d], of claim] t
              have "t = Inr (dict_set (dict_set parsed (lit ''claim'') ?text) (lit ''category'')
                        (dict_get claim (lit ''category'') (PyStr (lit ''Unknown''))))"
                by simp
              with t have "verify_claim_try env client claim ?text ?ctx search_text calls1 =
                 (Inr (dict_set (dict_set parsed (lit ''claim'') ?text) (lit ''category'')
                        (dict_get claim (lit ''category'') (PyStr (lit ''Unknown'')))), ?calls2)"
                by simp
              from verify_claim_analysed[OF s' f k this] assms c p d show ?thesis
                by (auto simp: map_of_dict_set)
            next
              case False
              then have n: "\<forall>d. result \<noteq> PyDict d" by blast
              from verify_claim_try_not_a_dict[OF c p n, of claim] t
              have "t = Inl (item_assignment_error result)" by simp
              with t have "verify_claim_try env client claim ?text ?ctx search_text calls1 =
                 (Inl (item_assignment_error result), ?calls2)"
                by simp
              from verify_claim_analysis_failed[OF s' f k this] assms c p n show ?thesis
                by (cases result) (auto simp: is_unverifiable_unverifiable)
            qed
          qed
        qed
        with s' f k show ?thesis
          by (simp add: Let_def)
      qed
    qed
  qed
qed

lemma get_tavily_client_sample:
  "get_tavily_client (sample_env both_keys found completion) = Inr (lit ''tvly-1'')"
  "get_tavily_client (sample_env search_key_only found completion) = Inr (lit ''tvly-1'')"
  by (simp_all add: get_tavily_client_def get_secret_def sample_env_def both_keys_def search_key_only_def)

lemma get_openai_client_search_key_only:
  "get_openai_client (sample_env search_key_only found completion) =
     Inl (ValueError (lit ''API key not found in secrets. Please configure OPENROUTER_API_KEY.''))"
  by (simp add: get_openai_client_def get_secret_def sample_env_def search_key_only_def)

lemma sample_claim_fields:
  "dict_get sample_claim (lit ''claim'') (PyStr []) = PyStr (lit ''Company X grew revenue 40% in 2023.'')"
  "dict_get sample_claim (lit ''context'') (PyStr []) = PyStr []"
  "dict_get sample_claim (lit ''verification_query'') dflt = dflt"
  "dict_get sample_claim (lit ''category'') dflt = PyStr (lit ''Financial'')"
  by (simp_all add: dict_get_def sample_claim_def)

lemma search_web_sample:
  assumes "get_tavily_client (sample_env keys found completion) = Inr key"
  shows "search_web (sample_env keys found completion) query n calls =
     ((case found of Inl e \<Rightarrow> Inl (ValueError (lit ''Web search failed: '' @ exn_str e)) | Inr r \<Rightarrow> Inr r),
      calls @ [SearchCall key query n])"
  using assms by (simp add: search_web_def sample_env_def split: sum.splits)

lemma exn_str_timeout: "lit ''Web search failed: '' @ exn_str timeout = lit ''Web search failed: timed out''"
  by (simp add: timeout_def lit_append[symmetric])

lemma runtime_sample: "runtime (sample_env keys found completion) = sample_runtime"
  by (simp add: sample_env_def)

lemma format_search_results_no_evidence: "format_search_results b no_evidence = Inr []"
  by (simp add: format_search_results_def no_evidence_def dict_get_def first_results_def then_do_def)

lemma format_search_results_some_evidence:
  "format_search_results b some_evidence =
     Inr (lit ''AI Summary: Revenue grew 12%.'' @ lit ''\<newline>\<newline>'' @
          lit ''Source: https://example.com/report\<newline>'' @
          lit ''Title: Annual report\<newline>'' @
          lit ''Content: Revenue grew 12% in 2023.\<newline>'')"
  by (simp add: format_search_results_def some_evidence_def dict_get_def first_results_def
      then_do_def format_result_def py_str_def lit_append[symmetric])

lemma format_search_results_null_results:
  "format_search_results b null_results =
     Inl (TypeError ([39] @ lit ''NoneType'' @ [39] @ lit '' object is not subscriptable''))"
  by (simp add: format_search_results_def null_results_def dict_get_def first_results_def
      then_do_def no_slice_error_def)

lemma well_formed_samples:
  "well_formed_response no_evidence" "well_formed_response some_evidence"
  "\<not> well_formed_response null_results"
  by (simp_all add: well_formed_response_def no_evidence_def some_evidence_def null_results_def)


text \<open>
  Both keys are configured and the search provider answers \<open>{"results": null}\<close>:
  the slice \<open>[:5]\<close> is taken between the two \<open>try\<close> blocks and its TypeError
  reaches the caller of \<open>verify_claim\<close>.
\<close>

lemma verify_claim_raises_on_null_results:
  "verify_claim (sample_env both_keys (Inr null_results) (Inl timeout)) (PyDict sample_claim) [] =
     (Inl (TypeError ([39] @ lit ''NoneType'' @ [39] @ lit '' object is not subscriptable'')),
      [SearchCall (lit ''tvly-1'') (PyStr (lit ''Company X grew revenue 40% in 2023.'')) 5])"
proof -
  let ?env = "sample_env both_keys (Inr null_results) (Inl timeout)"
  have s: "search_web ?env (dict_get sample_claim (lit ''verification_query'')
             (dict_get sample_claim (lit ''claim'') (PyStr []))) 5 [] =
           (Inr null_results, [SearchCall (lit ''tvly-1'') (PyStr (lit ''Company X grew revenue 40% in 2023.'')) 5])"
    by (simp add: search_web_sample[OF get_tavily_client_sample(1)] sample_claim_fields)
  show ?thesis
    by (rule verify_claim_format_failed[OF s format_search_results_null_results])
qed



lemma py_strip_no_space:
  assumes "s \<noteq> []" and "\<not> py_isspace (hd s)" and "\<not> py_isspace (last s)"
  shows "py_strip s = s"
proof -
  have a: "dropWhile py_isspace s = s"
    using assms(1,2) by (cases s) simp_all
  have "rev s \<noteq> []" "\<not> py_isspace (hd (rev s))"
    using assms(1,3) by (simp_all add: hd_rev)
  then have "dropWhile py_isspace (rev s) = rev s"
    by (cases "rev s") simp_all
  with a show ?thesis by (simp add: py_strip_def)
qed

lemma clean_response_maybe:
  "clean_response (lit ''{\"status\": \"Maybe\", \"confidence\": 7}'') =
     Inr (lit ''{\"status\": \"Maybe\", \"confidence\": 7}'')"
  by (simp add: clean_response_def fence_def startswith_def py_strip_def py_isspace_def lit_def)

lemma clean_response_verified:
  "clean_response (lit ''{\"status\": \"Verified\", \"confidence\": 1}'') =
     Inr (lit ''{\"status\": \"Verified\", \"confidence\": 1}'')"
  by (simp add: clean_response_def fence_def startswith_def py_strip_def py_isspace_def lit_def)

lemma verify_claim_try_sample:
  "verify_claim_try (sample_env keys found (Inr response)) client claim claim_text context search_text calls =
     (then_do (parse_response (sample_env keys found (Inr response)) response) (\<lambda>result.
        case result of
          PyDict d \<Rightarrow> Inr (dict_set (dict_set d (lit ''claim'') claim_text) (lit ''category'')
                            (dict_get claim (lit ''category'') (PyStr (lit ''Unknown''))))
        | _ \<Rightarrow> Inl (item_assignment_error result)),
      calls @ [ChatCall client (get_model_name (sample_env keys found (Inr response)))
        (VERIFICATION_PROMPT (py_str sample_runtime claim_text) (py_str sample_runtime context) search_text) 1000])"
  by (simp add: verify_claim_try_def Let_def then_do_def sample_env_def)

lemma parse_response_maybe:
  "parse_response (sample_env keys found completion) [Some (lit ''{\"status\": \"Maybe\", \"confidence\": 7}'')] =
     Inr (PyDict [(lit ''status'', PyStr (lit ''Maybe'')), (lit ''confidence'', PyInt 7)])"
  by (simp add: parse_response_def message_content_def then_do_def clean_response_maybe
      sample_env_def sample_loads_def)

lemma parse_response_verified:
  "parse_response (sample_env keys found completion) [Some (lit ''{\"status\": \"Verified\", \"confidence\": 1}'')] =
     Inr (PyDict [(lit ''status'', PyStr (lit ''Verified'')), (lit ''confidence'', PyInt 1)])"
  by (simp add: parse_response_def message_content_def then_do_def clean_response_verified
      sample_env_def sample_loads_def)

text \<open>
  C9, a run that contradicts it. The provider answers
  \<open>{"status": "Maybe", "confidence": 7}\<close>: the verdict has
  that status and that confidence.
\<close>

theorem verdict_with_unknown_status:
  "fst (verify_claim
          (sample_env both_keys (Inr no_evidence)
             (Inr [Some (lit ''{\"status\": \"Maybe\", \"confidence\": 7}'')]))
          (PyDict sample_claim) []) =
     Inr [(lit ''status'', PyStr (lit ''Maybe'')),
          (lit ''confidence'', PyInt 7),
          (lit ''claim'', PyStr (lit ''Company X grew revenue 40% in 2023.'')),
          (lit ''category'', PyStr (lit ''Financial''))] \<and>
   \<not> valid_status (PyStr (lit ''Maybe'')) \<and> \<not> valid_confidence (PyInt 7)"
proof -
  let ?env = "sample_env both_keys (Inr no_evidence)
             (Inr [Some (lit ''{\"status\": \"Maybe\", \"confidence\": 7}'')])"
  let ?q = "dict_get sample_claim (lit ''verification_query'') (dict_get sample_claim (lit ''claim'') (PyStr []))"
  let ?c1 = "[SearchCall (lit ''tvly-1'') (PyStr (lit ''Company X grew revenue 40% in 2023.'')) 5]"
  have s: "search_web ?env ?q 5 [] = (Inr no_evidence, ?c1)"
    by (simp add: search_web_sample[OF get_tavily_client_sample(1)] sample_claim_fields)
  obtain calls2 where t: "verify_claim_try ?env (lit ''sk-or-1'') sample_claim
         (dict_get sample_claim (lit ''claim'') (PyStr []))
         (dict_get sample_claim (lit ''context'') (PyStr [])) [] ?c1 =
       (Inr [(lit ''status'', PyStr (lit ''Maybe'')),
          (lit ''confidence'', PyInt 7),
          (lit ''claim'', PyStr (lit ''Company X grew revenue 40% in 2023.'')),
          (lit ''category'', PyStr (lit ''Financial''))], calls2)"
    by (simp add: verify_claim_try_sample parse_response_maybe then_do_def sample_claim_fields)
  have "\<not> valid_status (PyStr (lit ''Maybe''))" "\<not> valid_confidence (PyInt 7)"
    by (simp_all add: valid_status_def valid_confidence_def)
  with verify_claim_analysed[OF s format_search_results_no_evidence get_openai_client_sample t]
  show ?thesis
    by simp
qed

theorem verdict_status_and_confidence_witness:
  "verify_claim
     (sample_env both_keys (Inr some_evidence)
        (Inr [Some (lit ''{\"status\": \"Verified\", \"confidence\": 1}'')]))
     (PyDict sample_claim) [] =
     (Inr [(lit ''status'', PyStr (lit ''Verified'')),
           (lit ''confidence'', PyInt 1),
           (lit ''claim'', PyStr (lit ''Company X grew revenue 40% in 2023.'')),
           (lit ''category'', PyStr (lit ''Financial''))],
      [SearchCall (lit ''tvly-1'') (PyStr (lit ''Company X grew revenue 40% in 2023.'')) 5,
       ChatCall (lit ''sk-or-1'') (lit ''google/gemma-2-9b-it'')
         (VERIFICATION_PROMPT (lit ''Company X grew revenue 40% in 2023.'') []
            (lit ''AI Summary: Revenue grew 12%.'' @ lit ''\<newline>\<newline>'' @
             lit ''Source: https://example.com/report\<newline>'' @
             lit ''Title: Annual report\<newline>'' @
             lit ''Content: Revenue grew 12% in 2023.\<newline>'')) 1000]) \<and>
   parse_response
     (sample_env both_keys (Inr some_evidence)
        (Inr [Some (lit ''{\"status\": \"Verified\", \"confidence\": 1}'')]))
     [Some (lit ''{\"status\": \"Verified\", \"confidence\": 1}'')] =
     Inr (PyDict [(lit ''status'', PyStr (lit ''Verified'')), (lit ''confidence'', PyInt 1)]) \<and>
   map_of [(lit ''status'', PyStr (lit ''Verified'')),
           (lit ''confidence'', PyInt 1),
           (lit ''claim'', PyStr (lit ''Company X grew revenue 40% in 2023.'')),
           (lit ''category'', PyStr (lit ''Financial''))] (lit ''status'') =
     map_of [(lit ''status'', PyStr (lit ''Verified'')), (lit ''confidence'', PyInt 1)] (lit ''status'') \<and>
   verify_claim (sample_env both_keys (Inl timeout) (Inl timeout)) (PyDict sample_claim) [] =
     (Inr (unverifiable sample_claim (PyStr (lit ''Company X grew revenue 40% in 2023.''))
             (lit ''Could not search web: Web search failed: timed out'')),
      [SearchCall (lit ''tvly-1'') (PyStr (lit ''Company X grew revenue 40% in 2023.'')) 5]) \<and>
   is_unverifiable
     (unverifiable sample_claim (PyStr (lit ''Company X grew revenue 40% in 2023.''))
        (lit ''Could not search web: Web search failed: timed out''))
     (lit ''Could not search web: Web search failed: timed out'')"
proof -
  let ?env = "sample_env both_keys (Inr some_evidence)
             (Inr [Some (lit ''{\"status\": \"Verified\", \"confidence\": 1}'')])"
  let ?env1 = "sample_env both_keys (Inl timeout) (Inl timeout)"
  let ?q = "dict_get sample_claim (lit ''verification_query'') (dict_get sample_claim (lit ''claim'') (PyStr []))"
  let ?c1 = "[SearchCall (lit ''tvly-1'') (PyStr (lit ''Company X grew revenue 40% in 2023.'')) 5]"
  let ?st = "lit ''AI Summary: Revenue grew 12%.'' @ lit ''\<newline>\<newline>'' @
             lit ''Source: https://example.com/report\<newline>'' @
             lit ''Title: Annual report\<newline>'' @
             lit ''Content: Revenue grew 12% in 2023.\<newline>''"
  let ?v = "[(lit ''status'', PyStr (lit ''Verified'')),
           (lit ''confidence'', PyInt 1),
           (lit ''claim'', PyStr (lit ''Company X grew revenue 40% in 2023.'')),
           (lit ''category'', PyStr (lit ''Financial''))]"
  let ?prompt = "VERIFICATION_PROMPT (lit ''Company X grew revenue 40% in 2023.'') [] ?st"
  let ?c2 = "?c1 @ [ChatCall (lit ''sk-or-1'') (lit ''google/gemma-2-9b-it'') ?prompt 1000]"
  let ?u = "unverifiable sample_claim (PyStr (lit ''Company X grew revenue 40% in 2023.''))
             (lit ''Could not search web: Web search failed: timed out'')"
  have s: "search_web ?env ?q 5 [] = (Inr some_evidence, ?c1)"
    by (simp add: search_web_sample[OF get_tavily_client_sample(1)] sample_claim_fields)
  have f: "format_search_results (runtime ?env) some_evidence = Inr ?st"
    by (rule format_search_results_some_evidence)
  have m: "get_model_name ?env = lit ''google/gemma-2-9b-it''"
    by (rule get_model_name_sample) (rule map_of_both_keys_model)
  have t: "verify_claim_try ?env (lit ''sk-or-1'') sample_claim
         (dict_get sample_claim (lit ''claim'') (PyStr []))
         (dict_get sample_claim (lit ''context'') (PyStr [])) ?st ?c1 =
       (Inr ?v, ?c2)"
    by (simp add: verify_claim_try_sample parse_response_verified then_do_def sample_claim_fields
        m py_str_def)
  have v: "verify_claim ?env (PyDict sample_claim) [] = (Inr ?v, ?c2)"
    by (rule verify_claim_analysed[OF s f get_openai_client_sample t])
  have c: "chat_create ?env ?c1 (lit ''sk-or-1'') (get_model_name ?env)
             (VERIFICATION_PROMPT
                (py_str (runtime ?env) (dict_get sample_claim (lit ''claim'') (PyStr [])))
                (py_str (runtime ?env) (dict_get sample_claim (lit ''context'') (PyStr []))) ?st) 1000 =
           Inr [Some (lit ''{\"status\": \"Verified\", \"confidence\": 1}'')]"
    by (simp add: sample_env_def)
  have p: "parse_response ?env [Some (lit ''{\"status\": \"Verified\", \"confidence\": 1}'')] =
     Inr (PyDict [(lit ''status'', PyStr (lit ''Verified'')), (lit ''confidence'', PyInt 1)])"
    by (rule parse_response_verified)
  from verdict_status_and_confidence[OF v] s f c p
  have a: "map_of ?v (lit ''status'') =
     map_of [(lit ''status'', PyStr (lit ''Verified'')), (lit ''confidence'', PyInt 1)] (lit ''status'')"
    by (simp add: Let_def get_openai_client_sample)
  have s1: "search_web ?env1 ?q 5 [] = (Inl (ValueError (lit ''Web search failed: timed out'')), ?c1)"
    by (simp add: search_web_sample[OF get_tavily_client_sample(1)] sample_claim_fields exn_str_timeout)
  from verify_claim_search_failed[OF s1]
  have v1: "verify_claim ?env1 (PyDict sample_claim) [] = (Inr ?u, ?c1)"
    by (simp add: sample_claim_fields lit_append[symmetric])
  from verdict_status_and_confidence[OF v1] s1
  have b: "is_unverifiable ?u (lit ''Could not search web: Web search failed: timed out'')"
    by (simp add: Let_def sample_claim_fields lit_append[symmetric])
  from v p a v1 b show ?thesis
    by simp
qed

section \<open>Verifying a batch\<close>

lemma verify_loop_append:
  "verify_loop env cb n i (xs @ ys) acc calls =
     (case verify_loop env cb n i xs acc calls of
        (Inl e, calls1) \<Rightarrow> (Inl e, calls1)
      | (Inr results, calls1) \<Rightarrow> verify_loop env cb n (i + length xs) ys results calls1)"
proof (induction xs arbitrary: i acc calls)
  case Nil
  show ?case by simp
next
  case (Cons x xs)
  show ?case
    by (simp add: Cons.IH split: prod.splits option.splits sum.splits)
qed

lemma verify_loop_results:
  assumes "verify_loop env cb n i xs acc calls = (Inr verdicts, calls')"
  shows "\<exists>new. verdicts = acc @ new \<and> length new = length xs"
  using assms
proof (induction xs arbitrary: i acc calls)
  case Nil
  then show ?case by simp
next
  case (Cons x xs)
  from Cons.prems obtain calls1 result calls2 where
    "verify_loop env cb n (i + 1) xs (acc @ [result]) calls2 = (Inr verdicts, calls')"
    by (auto split: prod.splits option.splits sum.splits)
  from Cons.IH[OF this] obtain new where "verdicts = (acc @ [result]) @ new" "length new = length xs"
    by blast
  then have "verdicts = acc @ (result # new) \<and> length (result # new) = length (x # xs)"
    by simp
  then show ?case by blast
qed

lemma verify_loop_nth:
  assumes "verify_loop env cb n 0 claims [] calls = (Inr verdicts, calls')"
    and "j < length claims"
  shows "fst (verify_claim env (claims ! j)
            (snd (report_progress cb j n (claims ! j)
               (snd (verify_loop env cb n 0 (take j claims) [] calls))))) = Inr (verdicts ! j)"
proof -
  have split: "claims = take j claims @ (claims ! j) # drop (Suc j) claims"
    using assms(2) by (simp add: id_take_nth_drop)
  obtain r calls1 where p: "verify_loop env cb n 0 (take j claims) [] calls = (r, calls1)"
    by (cases "verify_loop env cb n 0 (take j claims) [] calls")
  have l: "length (take j claims) = j" using assms(2) by simp
  have "verify_loop env cb n 0 (take j claims @ (claims ! j) # drop (Suc j) claims) [] calls =
          (Inr verdicts, calls')"
    using assms(1) split by simp
  then have c: "(case r of Inl e \<Rightarrow> (Inl e, calls1)
                 | Inr results \<Rightarrow> verify_loop env cb n (0 + length (take j claims))
                     ((claims ! j) # drop (Suc j) claims) results calls1) =
               (Inr verdicts, calls')"
    using p by (simp add: verify_loop_append)
  then obtain results where r: "r = Inr results"
    and step: "verify_loop env cb n j ((claims ! j) # drop (Suc j) claims) results calls1 = (Inr verdicts, calls')"
    using l by (cases r) (simp_all del: verify_loop.simps)
  from verify_loop_results[of env cb n 0 "take j claims" "[]" calls results calls1] p r l
  have lr: "length results = j" by auto
  from step obtain calls2 result calls3 where
    rp: "report_progress cb j n (claims ! j) calls1 = (None, calls2)" and
    vc: "verify_claim env (claims ! j) calls2 = (Inr result, calls3)" and
    rest: "verify_loop env cb n (j + 1) (drop (Suc j) claims) (results @ [result]) calls3 = (Inr verdicts, calls')"
    by (auto split: prod.splits option.splits sum.splits)
  from verify_loop_results[OF rest] obtain new where "verdicts = (results @ [result]) @ new"
    by blast
  then have "verdicts ! j = result" using lr by (simp add: nth_append)
  then show ?thesis using p rp vc by simp
qed

lemma search_web_answer:
  assumes "fst (search_web env query n calls) = Inr found"
  shows "\<exists>key. tavily_search env calls key query n = Inr found"
  using assms by (auto simp: search_web_def split: sum.splits)

lemma report_progress_quiet:
  assumes "progress_callback = None \<or>
     (\<exists>cb. progress_callback = Some cb \<and> (\<forall>calls i n preview. cb calls i n preview = None) \<and>
           (\<exists>s. dict_get claim (lit ''claim'') (PyStr []) = PyStr s))"
  shows "fst (report_progress progress_callback i n (PyDict claim) calls) = None"
  using assms by (auto simp: report_progress_def claim_preview_def)

lemma verify_loop_returns:
  assumes "get_openai_client env = Inr client"
    and "\<forall>calls key query n found.
           tavily_search env calls key query n = Inr found \<longrightarrow> well_formed_response found"
    and "progress_callback = None \<or>
     (\<exists>cb. progress_callback = Some cb \<and> (\<forall>calls i n preview. cb calls i n preview = None) \<and>
           (\<forall>claim\<in>set claims. \<exists>s. dict_get claim (lit ''claim'') (PyStr []) = PyStr s))"
  shows "\<exists>verdicts calls'. verify_loop env progress_callback n i (map PyDict claims) acc calls = (Inr verdicts, calls')"
  using assms(3)
proof (induction claims arbitrary: i acc calls)
  case Nil
  show ?case by simp
next
  case (Cons c cs)
  have q: "progress_callback = None \<or>
     (\<exists>cb. progress_callback = Some cb \<and> (\<forall>calls i n preview. cb calls i n preview = None) \<and>
           (\<exists>s. dict_get c (lit ''claim'') (PyStr []) = PyStr s))"
    using Cons.prems by auto
  have q': "progress_callback = None \<or>
     (\<exists>cb. progress_callback = Some cb \<and> (\<forall>calls i n preview. cb calls i n preview = None) \<and>
           (\<forall>claim\<in>set cs. \<exists>s. dict_get claim (lit ''claim'') (PyStr []) = PyStr s))"
    using Cons.prems by auto
  obtain calls1 where rp: "report_progress progress_callback i n (PyDict c) calls = (None, calls1)"
    using report_progress_quiet[OF q, of i n calls]
    by (cases "report_progress progress_callback i n (PyDict c) calls") simp
  have w: "\<forall>found. fst (search_web env (dict_get c (lit ''verification_query'')
                  (dict_get c (lit ''claim'') (PyStr []))) 5 calls1) = Inr found \<longrightarrow>
                well_formed_response found"
    using assms(2) search_web_answer by blast
  obtain verdict calls2 where vc: "verify_claim env (PyDict c) calls1 = (Inr verdict, calls2)"
    using verify_claim_dict_returns[OF assms(1) w] by blast
  from Cons.IH[OF q', of "i + 1" "acc @ [verdict]" calls2] rp vc show ?case
    by simp
qed

text \<open>
  C2, as the code has it. When the judgment key is configured, every answer of the
  search provider keeps the wire contract (an object whose \<open>results\<close>, when
  present, is a list of objects) and the progress callback, if one is given, never
  raises (every claim text then has to be a string, since the callback's preview
  slices it), \<open>verify_all_claims\<close> returns for a list of \<open>N\<close> claim dictionaries
  exactly \<open>N\<close> verdicts, and the verdict of index \<open>j\<close> is what \<open>verify_claim\<close>
  returns for the claim of index \<open>j\<close> when its turn comes.
\<close>

theorem verify_all_claims_in_order:
  assumes "get_openai_client env = Inr client"
    and "\<forall>calls key query n found.
           tavily_search env calls key query n = Inr found \<longrightarrow> well_formed_response found"
    and "progress_callback = None \<or>
     (\<exists>cb. progress_callback = Some cb \<and> (\<forall>calls i n preview. cb calls i n preview = None) \<and>
           (\<forall>claim\<in>set claims. \<exists>s. dict_get claim (lit ''claim'') (PyStr []) = PyStr s))"
  shows "\<exists>verdicts calls'.
           verify_all_claims env (map PyDict claims) progress_callback calls = (Inr verdicts, calls') \<and>
           length verdicts = length claims \<and>
           (\<forall>j<length claims.
              fst (verify_claim env (PyDict (claims ! j))
                     (calls_at env progress_callback (map PyDict claims) calls j)) = Inr (verdicts ! j))"
proof -
  obtain verdicts calls' where
    v: "verify_loop env progress_callback (length (map PyDict claims)) 0 (map PyDict claims) [] calls =
          (Inr verdicts, calls')"
    using verify_loop_returns[OF assms] by blast
  from verify_loop_results[OF v] have l: "length verdicts = length claims" by auto
  have "\<forall>j<length claims.
          fst (verify_claim env (PyDict (claims ! j))
                 (calls_at env progress_callback (map PyDict claims) calls j)) = Inr (verdicts ! j)"
  proof (intro allI impI)
    fix j assume j: "j < length claims"
    then have "j < length (map PyDict claims)" by simp
    from verify_loop_nth[OF v this] j show
      "fst (verify_claim env (PyDict (claims ! j))
                 (calls_at env progress_callback (map PyDict claims) calls j)) = Inr (verdicts ! j)"
      by (simp add: calls_at_def)
  qed
  with v l show ?thesis by (simp add: verify_all_claims_def)
qed

lemma take_lit: "take n (lit s) = lit (take n s)"
  by (simp add: lit_def take_map)

lemma claim_preview_sample:
  "claim_preview (PyDict sample_claim) = Inr (lit ''Company X grew revenue 40% in 2023....'')"
  by (simp add: claim_preview_def sample_claim_fields take_lit lit_append[symmetric])

lemma verify_claim_sample_without_judgment_key:
  "verify_claim (sample_env search_key_only (Inr no_evidence) completion) (PyDict sample_claim) calls =
     (Inl (ValueError (lit ''API key not found in secrets. Please configure OPENROUTER_API_KEY.'')),
      calls @ [SearchCall (lit ''tvly-1'') (PyStr (lit ''Company X grew revenue 40% in 2023.'')) 5])"
proof -
  let ?env = "sample_env search_key_only (Inr no_evidence) completion"
  have s: "search_web ?env (dict_get sample_claim (lit ''verification_query'')
             (dict_get sample_claim (lit ''claim'') (PyStr []))) 5 calls =
           (Inr no_evidence, calls @ [SearchCall (lit ''tvly-1'') (PyStr (lit ''Company X grew revenue 40% in 2023.'')) 5])"
    by (simp add: search_web_sample[OF get_tavily_client_sample(2)] sample_claim_fields)
  show ?thesis
    by (rule verify_claim_no_client[OF s format_search_results_no_evidence get_openai_client_search_key_only])
qed

lemma verify_claim_sample_search_timeout:
  "verify_claim (sample_env both_keys (Inl timeout) completion) (PyDict sample_claim) calls =
     (Inr (unverifiable sample_claim (PyStr (lit ''Company X grew revenue 40% in 2023.''))
             (lit ''Could not search web: Web search failed: timed out'')),
      calls @ [SearchCall (lit ''tvly-1'') (PyStr (lit ''Company X grew revenue 40% in 2023.'')) 5])"
proof -
  let ?env = "sample_env both_keys (Inl timeout) completion"
  have s: "search_web ?env (dict_get sample_claim (lit ''verification_query'')
             (dict_get sample_claim (lit ''claim'') (PyStr []))) 5 calls =
           (Inl (ValueError (lit ''Web search failed: timed out'')),
            calls @ [SearchCall (lit ''tvly-1'') (PyStr (lit ''Company X grew revenue 40% in 2023.'')) 5])"
    by (simp add: search_web_sample[OF get_tavily_client_sample(1)] sample_claim_fields exn_str_timeout)
  from verify_claim_search_failed[OF s] show ?thesis
    by (simp add: sample_claim_fields lit_append[symmetric])
qed

text \<open>
  C2, a run that contradicts it. Without the judgment key
  \<open>verify_all_claims\<close> returns no list: the ValueError
  of \<open>verify_claim\<close> leaves the loop.
\<close>

theorem verify_all_claims_raises_without_judgment_key:
  "verify_all_claims (sample_env search_key_only (Inr no_evidence) (Inl timeout))
     [PyDict sample_claim] None [] =
     (Inl (ValueError (lit ''API key not found in secrets. Please configure OPENROUTER_API_KEY.'')),
      [SearchCall (lit ''tvly-1'') (PyStr (lit ''Company X grew revenue 40% in 2023.'')) 5])"
  by (simp add: verify_all_claims_def report_progress_def verify_claim_sample_without_judgment_key)

lemma selective_env_facts:
  "get_openai_client (selective_env lost found completion) = Inr (lit ''sk-or-1'')"
  "get_tavily_client (selective_env lost found completion) = Inr (lit ''tvly-1'')"
  "get_model_name (selective_env lost found completion) = lit ''google/gemma-2-9b-it''"
  "runtime (selective_env lost found completion) = sample_runtime"
  by (simp_all add: get_openai_client_def get_tavily_client_def get_model_name_def get_secret_def
      selective_env_def)

lemma search_web_selective:
  "search_web (selective_env lost found completion) query n calls =
     ((if query = lost then Inl (ValueError (lit ''Web search failed: timed out'')) else Inr found),
      calls @ [SearchCall (lit ''tvly-1'') query n])"
  by (simp add: search_web_def selective_env_facts)
     (simp add: selective_env_def lit_append[symmetric])

lemma second_claim_fields:
  "dict_get second_claim (lit ''claim'') (PyStr []) = PyStr (lit ''Company X was founded in 1999.'')"
  "dict_get second_claim (lit ''context'') (PyStr []) = PyStr []"
  "dict_get second_claim (lit ''verification_query'') dflt = dflt"
  "dict_get second_claim (lit ''category'') dflt = PyStr (lit ''Date/Timeline'')"
  by (simp_all add: dict_get_def second_claim_def)

lemma claim_preview_second:
  "claim_preview (PyDict second_claim) = Inr (lit ''Company X was founded in 1999....'')"
  by (simp add: claim_preview_def second_claim_fields take_lit lit_append[symmetric])

lemma verify_claim_selective_lost:
  "verify_claim (selective_env (PyStr (lit ''Company X grew revenue 40% in 2023.'')) found completion)
     (PyDict sample_claim) calls =
     (Inr (unverifiable sample_claim (PyStr (lit ''Company X grew revenue 40% in 2023.''))
             (lit ''Could not search web: Web search failed: timed out'')),
      calls @ [SearchCall (lit ''tvly-1'') (PyStr (lit ''Company X grew revenue 40% in 2023.'')) 5])"
proof -
  let ?env = "selective_env (PyStr (lit ''Company X grew revenue 40% in 2023.'')) found completion"
  have s: "search_web ?env (dict_get sample_claim (lit ''verification_query'')
             (dict_get sample_claim (lit ''claim'') (PyStr []))) 5 calls =
           (Inl (ValueError (lit ''Web search failed: timed out'')),
            calls @ [SearchCall (lit ''tvly-1'') (PyStr (lit ''Company X grew revenue 40% in 2023.'')) 5])"
    by (simp add: search_web_selective sample_claim_fields)
  from verify_claim_search_failed[OF s] show ?thesis
    by (simp add: sample_claim_fields lit_append[symmetric])
qed

lemma verify_claim_selective_found:
  "verify_claim
     (selective_env (PyStr (lit ''Company X grew revenue 40% in 2023.'')) some_evidence
        (Inr [Some (lit ''{\"status\": \"Verified\", \"confidence\": 1}'')]))
     (PyDict second_claim) calls =
     (Inr [(lit ''status'', PyStr (lit ''Verified'')),
           (lit ''confidence'', PyInt 1),
           (lit ''claim'', PyStr (lit ''Company X was founded in 1999.'')),
           (lit ''category'', PyStr (lit ''Date/Timeline''))],
      calls @
      [SearchCall (lit ''tvly-1'') (PyStr (lit ''Company X was founded in 1999.'')) 5,
       ChatCall (lit ''sk-or-1'') (lit ''google/gemma-2-9b-it'')
         (VERIFICATION_PROMPT (lit ''Company X was founded in 1999.'') []
            (lit ''AI Summary: Revenue grew 12%.'' @ lit ''\<newline>\<newline>'' @
             lit ''Source: https://example.com/report\<newline>'' @
             lit ''Title: Annual report\<newline>'' @
             lit ''Content: Revenue grew 12% in 2023.\<newline>'')) 1000])"
proof -
  let ?env = "selective_env (PyStr (lit ''Company X grew revenue 40% in 2023.'')) some_evidence
        (Inr [Some (lit ''{\"status\": \"Verified\", \"confidence\": 1}'')])"
  let ?st = "lit ''AI Summary: Revenue grew 12%.'' @ lit ''\<newline>\<newline>'' @
             lit ''Source: https://example.com/report\<newline>'' @
             lit ''Title: Annual report\<newline>'' @
             lit ''Content: Revenue grew 12% in 2023.\<newline>''"
  let ?c1 = "calls @ [SearchCall (lit ''tvly-1'') (PyStr (lit ''Company X was founded in 1999.'')) 5]"
  have s: "search_web ?env (dict_get second_claim (lit ''verification_query'')
             (dict_get second_claim (lit ''claim'') (PyStr []))) 5 calls = (Inr some_evidence, ?c1)"
    by (simp add: search_web_selective second_claim_fields)
  have f: "format_search_results (runtime ?env) some_evidence = Inr ?st"
    by (rule format_search_results_some_evidence)
  have p: "parse_response ?env [Some (lit ''{\"status\": \"Verified\", \"confidence\": 1}'')] =
     Inr (PyDict [(lit ''status'', PyStr (lit ''Verified'')), (lit ''confidence'', PyInt 1)])"
    by (simp add: parse_response_def message_content_def then_do_def clean_response_verified
        selective_env_def sample_loads_def)
  have c: "chat_create ?env cs k m pr n = Inr [Some (lit ''{\"status\": \"Verified\", \"confidence\": 1}'')]"
    for cs k m pr n
    by (simp add: selective_env_def)
  have t: "verify_claim_try ?env (lit ''sk-or-1'') second_claim
         (dict_get second_claim (lit ''claim'') (PyStr []))
         (dict_get second_claim (lit ''context'') (PyStr [])) ?st ?c1 =
       (Inr [(lit ''status'', PyStr (lit ''Verified'')),
           (lit ''confidence'', PyInt 1),
           (lit ''claim'', PyStr (lit ''Company X was founded in 1999.'')),
           (lit ''category'', PyStr (lit ''Date/Timeline''))],
        ?c1 @ [ChatCall (lit ''sk-or-1'') (lit ''google/gemma-2-9b-it'')
         (VERIFICATION_PROMPT (lit ''Company X was founded in 1999.'') [] ?st) 1000])"
    by (simp add: verify_claim_try_def Let_def then_do_def c p second_claim_fields
        selective_env_facts py_str_def)
  from verify_claim_analysed[OF s f selective_env_facts(1) t] show ?thesis
    by simp
qed

theorem verify_all_claims_in_order_witness:
  "get_openai_client
     (selective_env (PyStr (lit ''Company X grew revenue 40% in 2023.'')) some_evidence
        (Inr [Some (lit ''{\"status\": \"Verified\", \"confidence\": 1}'')])) = Inr (lit ''sk-or-1'') \<and>
   well_formed_response some_evidence \<and>
   verify_all_claims
     (selective_env (PyStr (lit ''Company X grew revenue 40% in 2023.'')) some_evidence
        (Inr [Some (lit ''{\"status\": \"Verified\", \"confidence\": 1}'')]))
     [PyDict sample_claim, PyDict second_claim] (Some update_progress) [] =
     (Inr [unverifiable sample_claim (PyStr (lit ''Company X grew revenue 40% in 2023.''))
             (lit ''Could not search web: Web search failed: timed out''),
           [(lit ''status'', PyStr (lit ''Verified'')),
            (lit ''confidence'', PyInt 1),
            (lit ''claim'', PyStr (lit ''Company X was founded in 1999.'')),
            (lit ''category'', PyStr (lit ''Date/Timeline''))]],
      [ProgressCall 0 2 (lit ''Company X grew revenue 40% in 2023....''),
       SearchCall (lit ''tvly-1'') (PyStr (lit ''Company X grew revenue 40% in 2023.'')) 5,
       ProgressCall 1 2 (lit ''Company X was founded in 1999....''),
       SearchCall (lit ''tvly-1'') (PyStr (lit ''Company X was founded in 1999.'')) 5,
       ChatCall (lit ''sk-or-1'') (lit ''google/gemma-2-9b-it'')
         (VERIFICATION_PROMPT (lit ''Company X was founded in 1999.'') []
            (lit ''AI Summary: Revenue grew 12%.'' @ lit ''\<newline>\<newline>'' @
             lit ''Source: https://example.com/report\<newline>'' @
             lit ''Title: Annual report\<newline>'' @
             lit ''Content: Revenue grew 12% in 2023.\<newline>'')) 1000]) \<and>
   fst (verify_claim
          (selective_env (PyStr (lit ''Company X grew revenue 40% in 2023.'')) some_evidence
             (Inr [Some (lit ''{\"status\": \"Verified\", \"confidence\": 1}'')]))
          (PyDict second_claim)
          (calls_at
             (selective_env (PyStr (lit ''Company X grew revenue 40% in 2023.'')) some_evidence
                (Inr [Some (lit ''{\"status\": \"Verified\", \"confidence\": 1}'')]))
             (Some update_progress) [PyDict sample_claim, PyDict second_claim] [] 1)) =
     Inr [(lit ''status'', PyStr (lit ''Verified'')),
          (lit ''confidence'', PyInt 1),
          (lit ''claim'', PyStr (lit ''Company X was founded in 1999.'')),
          (lit ''category'', PyStr (lit ''Date/Timeline''))]"
proof -
  let ?env = "selective_env (PyStr (lit ''Company X grew revenue 40% in 2023.'')) some_evidence
        (Inr [Some (lit ''{\"status\": \"Verified\", \"confidence\": 1}'')])"
  let ?u = "unverifiable sample_claim (PyStr (lit ''Company X grew revenue 40% in 2023.''))
             (lit ''Could not search web: Web search failed: timed out'')"
  let ?v = "[(lit ''status'', PyStr (lit ''Verified'')),
            (lit ''confidence'', PyInt 1),
            (lit ''claim'', PyStr (lit ''Company X was founded in 1999.'')),
            (lit ''category'', PyStr (lit ''Date/Timeline''))]"
  have k: "get_openai_client ?env = Inr (lit ''sk-or-1'')" by (rule selective_env_facts)
  have w: "\<forall>calls key query n found.
           tavily_search ?env calls key query n = Inr found \<longrightarrow> well_formed_response found"
    by (simp add: selective_env_def well_formed_samples)
  have t: "\<forall>claim\<in>set [sample_claim, second_claim]. \<exists>s. dict_get claim (lit ''claim'') (PyStr []) = PyStr s"
    by (simp add: sample_claim_fields second_claim_fields)
  have c: "Some update_progress = None \<or>
     (\<exists>cb. Some update_progress = Some cb \<and> (\<forall>calls i n preview. cb calls i n preview = None) \<and>
           (\<forall>claim\<in>set [sample_claim, second_claim]. \<exists>s. dict_get claim (lit ''claim'') (PyStr []) = PyStr s))"
    using t by (simp add: update_progress_def)
  have e: "verify_all_claims ?env [PyDict sample_claim, PyDict second_claim] (Some update_progress) [] =
     (Inr [?u, ?v],
      [ProgressCall 0 2 (lit ''Company X grew revenue 40% in 2023....''),
       SearchCall (lit ''tvly-1'') (PyStr (lit ''Company X grew revenue 40% in 2023.'')) 5,
       ProgressCall 1 2 (lit ''Company X was founded in 1999....''),
       SearchCall (lit ''tvly-1'') (PyStr (lit ''Company X was founded in 1999.'')) 5,
       ChatCall (lit ''sk-or-1'') (lit ''google/gemma-2-9b-it'')
         (VERIFICATION_PROMPT (lit ''Company X was founded in 1999.'') []
            (lit ''AI Summary: Revenue grew 12%.'' @ lit ''\<newline>\<newline>'' @
             lit ''Source: https://example.com/report\<newline>'' @
             lit ''Title: Annual report\<newline>'' @
             lit ''Content: Revenue grew 12% in 2023.\<newline>'')) 1000])"
    by (simp add: verify_all_claims_def report_progress_def claim_preview_sample claim_preview_second
        update_progress_def verify_claim_selective_lost verify_claim_selective_found)
  from verify_all_claims_in_order[OF k w c, of "[]"] obtain verdicts calls' where
    v: "verify_all_claims ?env (map PyDict [sample_claim, second_claim]) (Some update_progress) [] = (Inr verdicts, calls')"
    and n: "\<forall>j<length [sample_claim, second_claim].
        fst (verify_claim ?env (PyDict ([sample_claim, second_claim] ! j))
          (calls_at ?env (Some update_progress) (map PyDict [sample_claim, second_claim]) [] j)) = Inr (verdicts ! j)"
    by blast
  from v e have "verdicts = [?u, ?v]" by simp
  with n[rule_format, of 1] have
    "fst (verify_claim ?env (PyDict second_claim)
          (calls_at ?env (Some update_progress) [PyDict sample_claim, PyDict second_claim] [] 1)) = Inr ?v"
    by simp
  with k e well_formed_samples(2) show ?thesis by simp
qed

lemma verify_loop_Inl_append:
  assumes "verify_loop env cb n 0 before [] calls = (Inr verdicts, calls1)"
  shows "verify_loop env cb n 0 (before @ rest) [] calls =
           verify_loop env cb n (length before) rest verdicts calls1"
  using assms by (simp add: verify_loop_append)

text \<open>
  C5, as the code has it. The callback is called unguarded. When the claims
  \<open>before\<close> have been verified and the callback raises \<open>e\<close> for the next claim,
  \<open>verify_all_claims\<close> raises \<open>e\<close>: it returns no verdicts, and the log ends with
  that progress call, so neither that claim nor a later one is searched or judged.
\<close>

theorem callback_exception_ends_verification:
  assumes "verify_loop env (Some cb) (length (before @ claim # after)) 0 before [] calls = (Inr verdicts, calls1)"
    and "claim_preview claim = Inr preview"
    and "cb calls1 (length before) (length (before @ claim # after)) preview = Some e"
  shows "verify_all_claims env (before @ claim # after) (Some cb) calls =
     (Inl e, calls1 @ [ProgressCall (length before) (length (before @ claim # after)) preview])"
proof -
  have "verify_loop env (Some cb) (length (before @ claim # after)) (length before) (claim # after) verdicts calls1 =
      (Inl e, calls1 @ [ProgressCall (length before) (length (before @ claim # after)) preview])"
    using assms(2,3) by (simp add: report_progress_def)
  with verify_loop_Inl_append[OF assms(1), of "claim # after"] show ?thesis
    by (simp add: verify_all_claims_def)
qed

text \<open>
  A callback that raises at the first claim: no verdict is returned and no provider
  is called, although search and judgment would both have succeeded.
\<close>

theorem failing_callback_aborts:
  "verify_all_claims (sample_env both_keys (Inr no_evidence)
        (Inr [Some (lit ''{\"status\": \"Verified\", \"confidence\": 1}'')]))
     [PyDict sample_claim] (Some (failing_callback 0)) [] =
     (Inl (ExternalError (lit ''progress bar is gone'')),
      [ProgressCall 0 1 (lit ''Company X grew revenue 40% in 2023....'')])"
  by (simp add: verify_all_claims_def report_progress_def claim_preview_sample failing_callback_def)

theorem callback_exception_ends_verification_witness:
  "verify_loop (sample_env both_keys (Inl timeout) (Inl timeout)) (Some (failing_callback 1))
      (length ([PyDict sample_claim] @ PyDict sample_claim # [])) 0 [PyDict sample_claim] [] [] =
     (Inr [unverifiable sample_claim (PyStr (lit ''Company X grew revenue 40% in 2023.''))
             (lit ''Could not search web: Web search failed: timed out'')],
      [ProgressCall 0 2 (lit ''Company X grew revenue 40% in 2023....''),
       SearchCall (lit ''tvly-1'') (PyStr (lit ''Company X grew revenue 40% in 2023.'')) 5]) \<and>
   claim_preview (PyDict sample_claim) = Inr (lit ''Company X grew revenue 40% in 2023....'') \<and>
   failing_callback 1
      [ProgressCall 0 2 (lit ''Company X grew revenue 40% in 2023....''),
       SearchCall (lit ''tvly-1'') (PyStr (lit ''Company X grew revenue 40% in 2023.'')) 5]
      (length [PyDict sample_claim]) (length ([PyDict sample_claim] @ PyDict sample_claim # []))
      (lit ''Company X grew revenue 40% in 2023....'') = Some (ExternalError (lit ''progress bar is gone'')) \<and>
   verify_all_claims (sample_env both_keys (Inl timeout) (Inl timeout))
      [PyDict sample_claim, PyDict sample_claim] (Some (failing_callback 1)) [] =
     (Inl (ExternalError (lit ''progress bar is gone'')),
      [ProgressCall 0 2 (lit ''Company X grew revenue 40% in 2023....''),
       SearchCall (lit ''tvly-1'') (PyStr (lit ''Company X grew revenue 40% in 2023.'')) 5,
       ProgressCall 1 2 (lit ''Company X grew revenue 40% in 2023....'')])"
proof -
  let ?env = "sample_env both_keys (Inl timeout) (Inl timeout)"
  let ?p = "lit ''Company X grew revenue 40% in 2023....''"
  let ?c1 = "[ProgressCall 0 2 ?p,
       SearchCall (lit ''tvly-1'') (PyStr (lit ''Company X grew revenue 40% in 2023.'')) 5]"
  have a: "verify_loop ?env (Some (failing_callback 1))
      (length ([PyDict sample_claim] @ PyDict sample_claim # [])) 0 [PyDict sample_claim] [] [] =
     (Inr [unverifiable sample_claim (PyStr (lit ''Company X grew revenue 40% in 2023.''))
             (lit ''Could not search web: Web search failed: timed out'')], ?c1)"
    by (simp add: report_progress_def claim_preview_sample failing_callback_def
        verify_claim_sample_search_timeout)
  have b: "claim_preview (PyDict sample_claim) = Inr ?p" by (rule claim_preview_sample)
  have c: "failing_callback 1 ?c1 (length [PyDict sample_claim])
      (length ([PyDict sample_claim] @ PyDict sample_claim # [])) ?p =
      Some (ExternalError (lit ''progress bar is gone''))"
    by (simp add: failing_callback_def)
  from callback_exception_ends_verification[OF a b c] a b c show ?thesis
    by simp
qed

section \<open>The application\<close>

lemma sample_env_no_keys:
  "get_secret (sample_env [] search completion) key [] = []"
  "get_openai_client (sample_env [] search completion) =
     Inl (ValueError (lit ''API key not found in secrets. Please configure OPENROUTER_API_KEY.''))"
  "get_tavily_client (sample_env [] search completion) =
     Inl (ValueError (lit ''Tavily API key not found in secrets. Please configure TAVILY_API_KEY.''))"
  by (simp_all add: get_openai_client_def get_tavily_client_def get_secret_def sample_env_def)

lemma sample_env_search_key_only:
  "get_secret (sample_env search_key_only search completion) (lit ''OPENROUTER_API_KEY'') [] = []"
  "get_secret (sample_env search_key_only search completion) (lit ''TAVILY_API_KEY'') [] = lit ''tvly-1''"
  by (simp_all add: get_secret_def sample_env_def search_key_only_def)

text \<open>
  C4, a run that contradicts it. With the search key set and the judgment key
  missing, \<open>main\<close> shows two errors, the one of the sidebar and the one of the
  key check, and neither names a key: the line that names both keys is an \<open>st.info\<close>.
  Outside \<open>main\<close>, \<open>get_openai_client\<close> raises a ValueError that names its own key
  only, and \<open>verify_claim\<close> has searched the web by the time it raises.
\<close>

theorem main_shows_two_errors:
  "main (sample_env search_key_only (Inr no_evidence) (Inl timeout))
        (Inr [Some (lit ''Company X grew revenue 40% in 2023.'')]) [] =
     (Stopped
        [St_error ([10060] @ lit '' OpenAI API key missing''),
         St_success ([9989] @ lit '' Tavily API configured''),
         St_error ([9888, 65039] @ lit '' Please configure API keys in Streamlit secrets to use this app.''),
         St_info (lit ''Add OPENROUTER_API_KEY and TAVILY_API_KEY to your secrets.toml file or Streamlit Cloud secrets.'')],
      []) \<and>
   verify_claim (sample_env search_key_only (Inr no_evidence) (Inl timeout)) (PyDict sample_claim) [] =
     (Inl (ValueError (lit ''API key not found in secrets. Please configure OPENROUTER_API_KEY.'')),
      [SearchCall (lit ''tvly-1'') (PyStr (lit ''Company X grew revenue 40% in 2023.'')) 5])"
  by (simp add: main_def api_status_def sample_env_search_key_only
      verify_claim_sample_without_judgment_key)

text \<open>
  C4, as the code has it. When either key is absent (not in the secrets, empty, or
  the secrets cannot be read), \<open>main\<close> stops at its key check with the log unchanged: the
  document is not read and no provider is called. It has shown, in this order, the
  two status lines of the sidebar (an error for a missing key, a success for a key
  that is set), the error of the key check, and one \<open>st.info\<close> line that names both
  keys, \<open>OPENROUTER_API_KEY\<close> and \<open>TAVILY_API_KEY\<close>: two or three errors, none of
  which names a key. Each of the two getters raises a ValueError that names its own
  key only, and \<open>search_web\<close> without the search key raises it with no call made.
\<close>

theorem missing_credential_stops_main:
  assumes "get_secret env (lit ''OPENROUTER_API_KEY'') [] = [] \<or>
           get_secret env (lit ''TAVILY_API_KEY'') [] = []"
  shows "main env uploaded_file calls =
     (Stopped
        [if get_secret env (lit ''OPENROUTER_API_KEY'') [] = []
         then St_error ([10060] @ lit '' OpenAI API key missing'')
         else St_success ([9989] @ lit '' OpenAI API configured''),
         if get_secret env (lit ''TAVILY_API_KEY'') [] = []
         then St_error ([10060] @ lit '' Tavily API key missing'')
         else St_success ([9989] @ lit '' Tavily API configured''),
         St_error ([9888, 65039] @ lit '' Please configure API keys in Streamlit secrets to use this app.''),
         St_info (lit ''Add '' @ lit ''OPENROUTER_API_KEY'' @ lit '' and '' @ lit ''TAVILY_API_KEY'' @
                  lit '' to your secrets.toml file or Streamlit Cloud secrets.'')],
      calls) \<and>
     (get_secret env (lit ''OPENROUTER_API_KEY'') [] = [] \<longrightarrow>
        get_openai_client env =
          Inl (ValueError (lit ''API key not found in secrets. Please configure OPENROUTER_API_KEY.''))) \<and>
     (get_secret env (lit ''TAVILY_API_KEY'') [] = [] \<longrightarrow>
        get_tavily_client env =
          Inl (ValueError (lit ''Tavily API key not found in secrets. Please configure TAVILY_API_KEY.'')) \<and>
        search_web env query num_results calls =
          (Inl (ValueError (lit ''Tavily API key not found in secrets. Please configure TAVILY_API_KEY.'')),
           calls))"
proof -
  have m: "main env uploaded_file calls =
     (Stopped
        [if get_secret env (lit ''OPENROUTER_API_KEY'') [] = []
         then St_error ([10060] @ lit '' OpenAI API key missing'')
         else St_success ([9989] @ lit '' OpenAI API configured''),
         if get_secret env (lit ''TAVILY_API_KEY'') [] = []
         then St_error ([10060] @ lit '' Tavily API key missing'')
         else St_success ([9989] @ lit '' Tavily API configured''),
         St_error ([9888, 65039] @ lit '' Please configure API keys in Streamlit secrets to use this app.''),
         St_info (lit ''Add '' @ lit ''OPENROUTER_API_KEY'' @ lit '' and '' @ lit ''TAVILY_API_KEY'' @
                  lit '' to your secrets.toml file or Streamlit Cloud secrets.'')],
      calls)"
    using assms by (auto simp: main_def api_status_def Let_def lit_append[symmetric])
  have o: "get_secret env (lit ''OPENROUTER_API_KEY'') [] = [] \<longrightarrow>
        get_openai_client env =
          Inl (ValueError (lit ''API key not found in secrets. Please configure OPENROUTER_API_KEY.''))"
    by (simp add: get_openai_client_def)
  have t: "get_secret env (lit ''TAVILY_API_KEY'') [] = [] \<longrightarrow>
        get_tavily_client env =
          Inl (ValueError (lit ''Tavily API key not found in secrets. Please configure TAVILY_API_KEY.'')) \<and>
        search_web env query num_results calls =
          (Inl (ValueError (lit ''Tavily API key not found in secrets. Please configure TAVILY_API_KEY.'')),
           calls)"
    by (simp add: get_tavily_client_def search_web_def)
  from m o t show ?thesis by blast
qed

theorem missing_credential_stops_main_witness:
  "get_secret (sample_env search_key_only (Inr no_evidence) (Inl timeout)) (lit ''OPENROUTER_API_KEY'') [] = [] \<and>
   main (sample_env search_key_only (Inr no_evidence) (Inl timeout))
        (Inr [Some (lit ''Company X grew revenue 40% in 2023.'')]) [] =
     (Stopped
        [St_error ([10060] @ lit '' OpenAI API key missing''),
         St_success ([9989] @ lit '' Tavily API configured''),
         St_error ([9888, 65039] @ lit '' Please configure API keys in Streamlit secrets to use this app.''),
         St_info (lit ''Add OPENROUTER_API_KEY and TAVILY_API_KEY to your secrets.toml file or Streamlit Cloud secrets.'')],
      []) \<and>
   get_openai_client (sample_env search_key_only (Inr no_evidence) (Inl timeout)) =
     Inl (ValueError (lit ''API key not found in secrets. Please configure OPENROUTER_API_KEY.'')) \<and>
   get_secret (sample_env [] (Inr no_evidence) (Inl timeout)) (lit ''TAVILY_API_KEY'') [] = [] \<and>
   main (sample_env [] (Inr no_evidence) (Inl timeout))
        (Inr [Some (lit ''Company X grew revenue 40% in 2023.'')]) [] =
     (Stopped
        [St_error ([10060] @ lit '' OpenAI API key missing''),
         St_error ([10060] @ lit '' Tavily API key missing''),
         St_error ([9888, 65039] @ lit '' Please configure API keys in Streamlit secrets to use this app.''),
         St_info (lit ''Add OPENROUTER_API_KEY and TAVILY_API_KEY to your secrets.toml file or Streamlit Cloud secrets.'')],
      []) \<and>
   get_tavily_client (sample_env [] (Inr no_evidence) (Inl timeout)) =
     Inl (ValueError (lit ''Tavily API key not found in secrets. Please configure TAVILY_API_KEY.'')) \<and>
   search_web (sample_env [] (Inr no_evidence) (Inl timeout))
      (PyStr (lit ''Company X grew revenue 40% in 2023.'')) 5 [] =
     (Inl (ValueError (lit ''Tavily API key not found in secrets. Please configure TAVILY_API_KEY.'')), [])"
proof -
  let ?env1 = "sample_env search_key_only (Inr no_evidence) (Inl timeout)"
  let ?env0 = "sample_env [] (Inr no_evidence) (Inl timeout)"
  let ?file = "Inr [Some (lit ''Company X grew revenue 40% in 2023.'')]"
  have k1: "get_secret ?env1 (lit ''OPENROUTER_API_KEY'') [] = []"
    by (rule sample_env_search_key_only)
  have k0: "get_secret ?env0 (lit ''TAVILY_API_KEY'') [] = []"
    by (rule sample_env_no_keys)
  from k1 have h1: "get_secret ?env1 (lit ''OPENROUTER_API_KEY'') [] = [] \<or>
             get_secret ?env1 (lit ''TAVILY_API_KEY'') [] = []"
    by simp
  from k0 have h0: "get_secret ?env0 (lit ''OPENROUTER_API_KEY'') [] = [] \<or>
             get_secret ?env0 (lit ''TAVILY_API_KEY'') [] = []"
    by simp
  from missing_credential_stops_main[OF h1, of ?file "[]"]
       missing_credential_stops_main[OF h0, of ?file "[]" "PyStr (lit ''Company X grew revenue 40% in 2023.'')" 5]
       k1 k0
  show ?thesis
    by (simp add: sample_env_search_key_only sample_env_no_keys lit_append[symmetric])
qed

lemma sort_key_of_hashable:
  assumes "hashable (status_of x)"
  shows "sort_key_of x = Inr (severity x)"
proof (cases "status_of x")
  case (PyStr s)
  then show ?thesis
    by (simp add: sort_key_of_def severity_def status_of_def priority_order_def)
qed (use assms in \<open>simp_all add: sort_key_of_def severity_def status_of_def hashable_def\<close>)

lemma sort_keys_hashable:
  assumes "\<forall>x\<in>set results. hashable (status_of x)"
  shows "sort_keys results = Inr (map severity results)"
  using assms by (induction results) (simp_all add: sort_key_of_hashable then_do_def)

lemma map_snd_insort_key:
  assumes "\<forall>p\<in>set ps. fst p = f (snd p)"
  shows "map snd (insort_key fst (f x, x) ps) = insort_key f x (map snd ps)"
  using assms by (induction ps) auto

lemma sort_key_zip:
  "map snd (sort_key fst (zip (map f xs) xs)) = sort_key f xs"
proof (induction xs)
  case Nil
  show ?case by simp
next
  case (Cons x xs)
  have "\<forall>p\<in>set (sort_key fst (zip (map f xs) xs)). fst p = f (snd p)"
    by (auto simp: set_zip)
  from map_snd_insort_key[OF this, of x] Cons.IH show ?case
    by simp
qed

lemma sort_results_hashable:
  assumes "\<forall>x\<in>set results. hashable (status_of x)"
  shows "sort_results results = Inr (sort_key severity results)"
  by (simp add: sort_results_def sort_keys_hashable[OF assms] then_do_def sort_key_zip)

lemma filter_status_sort_key:
  "filter (\<lambda>x. status_of x = s) (sort_key severity xs) = filter (\<lambda>x. status_of x = s) xs"
proof -
  let ?k = "severity [(lit ''status'', s)]"
  have k: "\<And>x. status_of x = s \<Longrightarrow> severity x = ?k"
    by (simp add: severity_def status_of_def dict_get_def)
  have "filter (\<lambda>x. status_of x = s) ys = filter (\<lambda>x. status_of x = s) (filter (\<lambda>x. severity x = ?k) ys)" for ys
    using k by (induction ys) auto
  then show ?thesis
    by (metis sort_key_stable)
qed

text \<open>
  C10, as the code has it. When every status can be hashed (it is a string, a
  number, a boolean, \<open>None\<close>, or absent), the display list is a permutation of the
  verdict list, in the order False, Inaccurate, Unverifiable, Verified, any other
  status; verdicts with equal status, and more generally with equal rank, keep the
  relative order they have in the verdict list.
\<close>

theorem sort_results_by_severity:
  assumes "\<forall>x\<in>set results. hashable (status_of x)"
  shows "\<exists>sorted_results.
           sort_results results = Inr sorted_results \<and>
           mset sorted_results = mset results \<and>
           sorted (map severity sorted_results) \<and>
           (\<forall>s. filter (\<lambda>x. status_of x = s) sorted_results = filter (\<lambda>x. status_of x = s) results) \<and>
           (\<forall>k. filter (\<lambda>x. severity x = k) sorted_results = filter (\<lambda>x. severity x = k) results)"
  using sort_results_hashable[OF assms]
  by (simp add: filter_status_sort_key sort_key_stable)

text \<open>
  A status that is a list, as a model may answer: looking it up in
  \<open>priority_order\<close> raises, and there is no display list.
\<close>

theorem sort_results_unhashable_status:
  "sort_results [[(lit ''claim'', PyStr (lit ''a'')), (lit ''status'', PyStr (lit ''Verified''))],
                 [(lit ''claim'', PyStr (lit ''b'')), (lit ''status'', PyList [PyStr (lit ''False'')])]] =
     Inl (TypeError (lit ''unhashable type: '' @ [39] @ lit ''list'' @ [39]))"
  by (simp add: sort_results_def sort_key_of_def dict_get_def priority_order_def then_do_def)

theorem sort_results_by_severity_witness:
  "hashable (PyStr (lit ''Verified'')) \<and> hashable (PyStr (lit ''False'')) \<and> hashable (PyInt 3) \<and>
   sort_results
     [[(lit ''claim'', PyStr (lit ''a'')), (lit ''status'', PyStr (lit ''Verified''))],
      [(lit ''claim'', PyStr (lit ''b'')), (lit ''status'', PyStr (lit ''False''))],
      [(lit ''claim'', PyStr (lit ''c'')), (lit ''status'', PyInt 3)],
      [(lit ''claim'', PyStr (lit ''d'')), (lit ''status'', PyStr (lit ''False''))]] =
     Inr [[(lit ''claim'', PyStr (lit ''b'')), (lit ''status'', PyStr (lit ''False''))],
          [(lit ''claim'', PyStr (lit ''d'')), (lit ''status'', PyStr (lit ''False''))],
          [(lit ''claim'', PyStr (lit ''a'')), (lit ''status'', PyStr (lit ''Verified''))],
          [(lit ''claim'', PyStr (lit ''c'')), (lit ''status'', PyInt 3)]] \<and>
   sorted (map severity
        [[(lit ''claim'', PyStr (lit ''b'')), (lit ''status'', PyStr (lit ''False''))],
          [(lit ''claim'', PyStr (lit ''d'')), (lit ''status'', PyStr (lit ''False''))],
          [(lit ''claim'', PyStr (lit ''a'')), (lit ''status'', PyStr (lit ''Verified''))],
          [(lit ''claim'', PyStr (lit ''c'')), (lit ''status'', PyInt 3)]])"
proof -
  let ?xs = "[[(lit ''claim'', PyStr (lit ''a'')), (lit ''status'', PyStr (lit ''Verified''))],
      [(lit ''claim'', PyStr (lit ''b'')), (lit ''status'', PyStr (lit ''False''))],
      [(lit ''claim'', PyStr (lit ''c'')), (lit ''status'', PyInt 3)],
      [(lit ''claim'', PyStr (lit ''d'')), (lit ''status'', PyStr (lit ''False''))]]"
  let ?ys = "[[(lit ''claim'', PyStr (lit ''b'')), (lit ''status'', PyStr (lit ''False''))],
          [(lit ''claim'', PyStr (lit ''d'')), (lit ''status'', PyStr (lit ''False''))],
          [(lit ''claim'', PyStr (lit ''a'')), (lit ''status'', PyStr (lit ''Verified''))],
          [(lit ''claim'', PyStr (lit ''c'')), (lit ''status'', PyInt 3)]]"
  have h: "hashable (PyStr (lit ''Verified''))" "hashable (PyStr (lit ''False''))" "hashable (PyInt 3)"
    by (simp_all add: hashable_def)
  then have a: "\<forall>x\<in>set ?xs. hashable (status_of x)"
    by (simp add: status_of_def dict_get_def)
  have e: "sort_results ?xs = Inr ?ys"
    by (simp add: sort_results_def sort_key_of_def dict_get_def priority_order_def then_do_def)
  from sort_results_by_severity[OF a] e have "sorted (map severity ?ys)"
    by auto
  with h e show ?thesis by simp
qed

text \<open>
  C6. The download data is \<open>str(results)\<close>, Python's \<open>repr\<close> of the list: keys
  and strings are written in single quotes, which is not JSON. Here for a batch of
  one verdict.
\<close>

theorem download_data_is_python_repr:
  "download_data b
     [[(lit ''status'', PyStr (lit ''Verified'')),
       (lit ''confidence'', PyInt 1),
       (lit ''claim'', PyStr (lit ''Company X grew revenue 40% in 2023.'')),
       (lit ''category'', PyStr (lit ''Financial''))]] =
   lit ''[{'status': 'Verified', 'confidence': 1, 'claim': 'Company X grew revenue 40% in 2023.', 'category': 'Financial'}]''"
  by (simp add: download_data_def py_str_def repr_str_def repr_char_def dec_int_def dec_nat.simps lit_def)

section \<open>Fenced responses\<close>

text \<open>
  What the cleaning does for a payload without a triple backtick: a fenced response,
  with or without the \<open>json\<close> tag, is cleaned to the same text as the payload
  alone, so that the parser is given the same text and returns the same value.
\<close>

lemma py_split_sep:
  assumes "sep \<noteq> []"
  shows "py_split sep (sep @ rest) = [] # py_split sep rest"
  using assms by (subst py_split.simps) (simp add: startswith_def)

lemma py_split_first:
  assumes "sep \<noteq> []" and "\<forall>i<length p. \<not> startswith (drop i (p @ sep @ rest)) sep"
  shows "py_split sep (p @ sep @ rest) = p # py_split sep rest"
  using assms
proof (induction p)
  case Nil
  then show ?case by (simp add: py_split_sep)
next
  case (Cons c p)
  have a: "\<not> startswith ((c # p) @ sep @ rest) sep"
    using Cons.prems(2) by (metis drop0 length_greater_0_conv list.distinct(1))
  have b: "\<forall>i<length p. \<not> startswith (drop i (p @ sep @ rest)) sep"
  proof (intro allI impI)
    fix i assume "i < length p"
    then have "Suc i < length (c # p)" by simp
    with Cons.prems(2) have "\<not> startswith (drop (Suc i) ((c # p) @ sep @ rest)) sep" by blast
    then show "\<not> startswith (drop i (p @ sep @ rest)) sep" by simp
  qed
  have "py_split sep (p @ sep @ rest) = p # py_split sep rest"
    using Cons.IH[OF Cons.prems(1) b] .
  then show ?case
    using a by (subst py_split.simps) simp
qed

lemma fence_free_drop:
  assumes "fence_free p" and "i < length p"
  shows "\<not> startswith (drop i (p @ fence)) fence"
  using assms
proof (induction p arbitrary: i)
  case Nil
  then show ?case by simp
next
  case (Cons c cs)
  show ?case
  proof (cases i)
    case 0
    with Cons.prems show ?thesis by simp
  next
    case (Suc j)
    with Cons.prems have "fence_free cs" "j < length cs" by simp_all
    from Cons.IH[OF this] Suc show ?thesis by simp
  qed
qed

lemma py_strip_split:
  "\<exists>w. dropWhile py_isspace s = py_strip s @ w"
proof -
  let ?u = "dropWhile py_isspace s"
  have "rev ?u = takeWhile py_isspace (rev ?u) @ dropWhile py_isspace (rev ?u)"
    by simp
  then have "rev (rev ?u) = rev (takeWhile py_isspace (rev ?u) @ dropWhile py_isspace (rev ?u))"
    by simp
  then have "?u = rev (dropWhile py_isspace (rev ?u)) @ rev (takeWhile py_isspace (rev ?u))"
    by (simp del: takeWhile_dropWhile_id)
  then show ?thesis by (auto simp: py_strip_def)
qed

lemma py_strip_idem: "py_strip (py_strip s) = py_strip s"
proof (cases "py_strip s = []")
  case True
  have "py_strip [] = []" by (simp add: py_strip_def)
  with True show ?thesis by (simp only:)
next
  case False
  obtain w where w: "dropWhile py_isspace s = py_strip s @ w"
    using py_strip_split by blast
  have "dropWhile py_isspace s \<noteq> []" using w False by simp
  then have "\<not> py_isspace (hd (dropWhile py_isspace s))"
    by (rule hd_dropWhile)
  with w False have h: "\<not> py_isspace (hd (py_strip s))" by simp
  have "dropWhile py_isspace (rev (dropWhile py_isspace s)) \<noteq> []"
    using False by (simp add: py_strip_def)
  then have "\<not> py_isspace (hd (dropWhile py_isspace (rev (dropWhile py_isspace s))))"
    by (rule hd_dropWhile)
  then have l: "\<not> py_isspace (last (py_strip s))"
    using False by (simp add: py_strip_def last_rev)
  from py_strip_no_space[OF False h l] show ?thesis .
qed

lemma fence_facts:
  "fence \<noteq> []" "hd fence = 96" "last fence = 96" "length fence = 3" "\<not> py_isspace 96"
  by (simp_all add: fence_def lit_def py_isspace_def)

lemma py_strip_fenced: "py_strip (fence @ body @ fence) = fence @ body @ fence"
proof (rule py_strip_no_space)
  show "fence @ body @ fence \<noteq> []" by (simp add: fence_facts)
  show "\<not> py_isspace (hd (fence @ body @ fence))" by (simp add: fence_facts)
  show "\<not> py_isspace (last (fence @ body @ fence))" by (simp add: fence_facts)
qed

lemma clean_response_between_fences:
  assumes "\<forall>i<length body. \<not> startswith (drop i (body @ fence)) fence"
  shows "clean_response (fence @ body @ fence) =
           Inr (py_strip (if startswith body (lit ''json'') then drop 4 body else body))"
proof -
  have "py_split fence (body @ fence @ []) = body # py_split fence []"
    by (rule py_split_first) (use assms in \<open>simp_all add: fence_facts\<close>)
  then have "py_split fence (fence @ body @ fence) = [] # body # py_split fence []"
    by (simp add: py_split_sep fence_facts)
  moreover have "py_split fence [] = [[]]"
    by (simp add: py_split.simps)
  moreover have "startswith (fence @ body @ fence) fence"
    by (simp add: startswith_def)
  ultimately show ?thesis
    by (simp add: clean_response_def py_strip_fenced)
qed

lemma clean_response_fenced_json:
  assumes "fence_free payload"
  shows "clean_response (fence @ lit ''json'' @ payload @ fence) = Inr (py_strip payload)"
proof -
  let ?body = "lit ''json'' @ payload"
  have "\<forall>i<length ?body. \<not> startswith (drop i (?body @ fence)) fence"
  proof (intro allI impI)
    fix i assume i: "i < length ?body"
    show "\<not> startswith (drop i (?body @ fence)) fence"
    proof (cases "i < 4")
      case True
      then consider "i = 0" | "i = 1" | "i = 2" | "i = 3" by linarith
      then show ?thesis
        by cases (simp_all add: startswith_def fence_def lit_def)
    next
      case False
      have len: "length (lit ''json'') = 4" by (simp add: length_lit)
      have "drop i (lit ''json'' @ (payload @ fence)) =
              drop i (lit ''json'') @ drop (i - length (lit ''json'')) (payload @ fence)"
        by (rule drop_append)
      moreover have "drop i (lit ''json'') = []" using False len by simp
      ultimately have "drop i (?body @ fence) = drop (i - 4) (payload @ fence)"
        using len by (simp only: append_assoc append_Nil)
      moreover have "i - 4 < length payload" using i False len by simp
      ultimately show ?thesis using fence_free_drop[OF assms] by simp
    qed
  qed
  from clean_response_between_fences[OF this] show ?thesis
    by (simp add: startswith_def lit_def)
qed

lemma clean_response_fenced_plain:
  assumes "fence_free payload" and "\<not> startswith payload (lit ''json'')"
  shows "clean_response (fence @ payload @ fence) = Inr (py_strip payload)"
proof -
  have "\<forall>i<length payload. \<not> startswith (drop i (payload @ fence)) fence"
    using fence_free_drop[OF assms(1)] by blast
  from clean_response_between_fences[OF this] assms(2) show ?thesis by simp
qed

lemma clean_response_unfenced:
  assumes "\<not> startswith (py_strip payload) fence"
  shows "clean_response payload = Inr (py_strip payload)"
  using assms by (simp add: clean_response_def py_strip_idem)

lemma py_strip_inside: "\<exists>a b. s = a @ py_strip s @ b"
proof -
  obtain w where "dropWhile py_isspace s = py_strip s @ w"
    using py_strip_split by blast
  then have "s = takeWhile py_isspace s @ py_strip s @ w"
    by (metis takeWhile_dropWhile_id)
  then show ?thesis by blast
qed

lemma fence_free_strip:
  assumes "fence_free payload"
  shows "\<not> startswith (py_strip payload) fence"
proof
  assume st: "startswith (py_strip payload) fence"
  obtain a b where ab: "payload = a @ py_strip payload @ b"
    using py_strip_inside by blast
  from st have "take 3 (py_strip payload) = fence"
    by (simp add: startswith_def fence_facts)
  then have "length (take 3 (py_strip payload)) = 3"
    by (simp only: fence_facts)
  then have l: "3 \<le> length (py_strip payload)"
    by simp
  have "length payload = length (a @ py_strip payload @ b)"
    using ab by simp
  then have "length payload = length a + length (py_strip payload) + length b"
    by simp
  then have "length a < length payload"
    using l by linarith
  from fence_free_drop[OF assms this] have n: "\<not> startswith (drop (length a) (payload @ fence)) fence" .
  have "drop (length a) (payload @ fence) = py_strip payload @ b @ fence"
    by (subst ab) simp
  with n have "\<not> startswith (py_strip payload @ b @ fence) fence" by simp
  with st l show False
    by (simp add: startswith_def fence_facts)
qed

lemma parse_response_fenced_json:
  assumes "fence_free payload"
  shows "parse_response env [Some (fence @ lit ''json'' @ payload @ fence)] =
         parse_response env [Some payload]"
  by (simp add: parse_response_def message_content_def then_do_def
      clean_response_fenced_json[OF assms] clean_response_unfenced[OF fence_free_strip[OF assms]])

lemma parse_response_fenced_plain:
  assumes "fence_free payload" and "\<not> startswith payload (lit ''json'')"
  shows "parse_response env [Some (fence @ payload @ fence)] = parse_response env [Some payload]"
  by (simp add: parse_response_def message_content_def then_do_def
      clean_response_fenced_plain[OF assms] clean_response_unfenced[OF fence_free_strip[OF assms(1)]])

text \<open>
  C7. The payload is cut at its first triple backtick: a fenced JSON object whose
  string holds one is cleaned to a text that ends inside that string, while the same
  payload without fence is handed to the parser whole.
\<close>

theorem fenced_payload_with_backticks_is_cut:
  "clean_response (lit ''```json\<newline>{\"explanation\": \"Use ```code``` blocks\"}\<newline>```'') =
     Inr (lit ''{\"explanation\": \"Use'') \<and>
   clean_response (lit ''{\"explanation\": \"Use ```code``` blocks\"}'') =
     Inr (lit ''{\"explanation\": \"Use ```code``` blocks\"}'')"
  by (simp add: clean_response_def fence_def startswith_def py_strip_def py_isspace_def py_split.simps lit_def)

end
